theory Spec2Isabelle
  imports Complex_Main "HOL-Library.Multiset"
begin

section \<open>Strings as the Python code uses them\<close>

text \<open>
  Words, captions and tokens are Python \<open>str\<close> values; they are modelled as HOL strings.
  The vocabulary is English text, so \<open>str.lower\<close>, \<open>str.upper\<close> and \<open>str.strip\<close> are
  modelled on ASCII: the 26 letters change case, and the ASCII characters for which
  \<open>str.isspace\<close> holds are stripped.  On ASCII text \<open>len\<close> is \<open>length\<close>.
\<close>

definition lower_char :: "char \<Rightarrow> char" where
  "lower_char c =
     (case map_of (zip ''ABCDEFGHIJKLMNOPQRSTUVWXYZ'' ''abcdefghijklmnopqrstuvwxyz'') c of
        Some d \<Rightarrow> d
      | None \<Rightarrow> c)"

definition upper_char :: "char \<Rightarrow> char" where
  "upper_char c =
     (case map_of (zip ''abcdefghijklmnopqrstuvwxyz'' ''ABCDEFGHIJKLMNOPQRSTUVWXYZ'') c of
        Some d \<Rightarrow> d
      | None \<Rightarrow> c)"

definition lower :: "string \<Rightarrow> string" where
  "lower s = map lower_char s"

definition upper :: "string \<Rightarrow> string" where
  "upper s = map upper_char s"

definition isspace :: "char \<Rightarrow> bool" where
  "isspace c \<longleftrightarrow> (of_char c :: nat) \<in> {9, 10, 11, 12, 13, 28, 29, 30, 31, 32}"

definition strip :: "string \<Rightarrow> string" where
  "strip s = rev (dropWhile isspace (rev (dropWhile isspace s)))"

text \<open>
  \<open>Levenshtein.distance\<close> comes from a library outside the repository.  It is the edit
  distance with unit costs for insertion, deletion and substitution, given here by its
  defining recursion.
\<close>

fun distance :: "string \<Rightarrow> string \<Rightarrow> nat" where
  "distance [] ys = length ys"
| "distance (x # xs) [] = Suc (length xs)"
| "distance (x # xs) (y # ys) =
     min (min (distance xs (y # ys) + 1) (distance (x # xs) ys + 1))
         (distance xs ys + (if x = y then 0 else 1))"

datatype error =
    ValueError string
  | ZeroDivisionError
  | AttributeError
  | KeyError string

section \<open>Floating-point arithmetic\<close>

text \<open>
  The scores are Python floats, that is IEEE 754 double-precision numbers.  The functions
  that compute with them take the arithmetic as an argument: the conversion \<open>fl\<close> of an
  exact rational to a float (used for a decimal literal, for an integer, and for the true
  division of two integers, which Python rounds once) and the four operations.  The
  comparisons are those of a linear order on the floats; no operation of the scoring
  function yields a NaN.
\<close>

record 'f arith =
  fl :: "rat \<Rightarrow> 'f"
  fadd :: "'f \<Rightarrow> 'f \<Rightarrow> 'f"
  fsub :: "'f \<Rightarrow> 'f \<Rightarrow> 'f"
  fmul :: "'f \<Rightarrow> 'f \<Rightarrow> 'f"
  fdiv :: "'f \<Rightarrow> 'f \<Rightarrow> 'f"

text \<open>
  Double precision itself: a finite double is the rational it denotes, and every
  operation is the exact operation followed by rounding to the nearest double, ties to
  even, with 53 significant bits and gradual underflow below \<open>2^-1022\<close>.  Overflow is not
  modelled; no value of the scoring function exceeds 2 in magnitude.
\<close>

function bit_length :: "int \<Rightarrow> int" where
  "bit_length n = (if n \<le> 0 then 0 else bit_length (n div 2) + 1)"
  by pat_completeness auto
termination
  by (relation "measure nat") auto

declare bit_length.simps [simp del]

definition pow2 :: "int \<Rightarrow> rat" where
  "pow2 e = (if 0 \<le> e then 2 ^ nat e else 1 / 2 ^ nat (- e))"

definition binary_exponent :: "rat \<Rightarrow> int" where
  "binary_exponent x =
     (let (p, q) = quotient_of x;
          d = bit_length p - bit_length q
      in if pow2 d \<le> x then d else d - 1)"

definition round_half_even :: "rat \<Rightarrow> int" where
  "round_half_even x =
     (let n = \<lfloor>x\<rfloor>; f = x - of_int n
      in if f < 1 / 2 then n
         else if 1 / 2 < f then n + 1
         else if even n then n else n + 1)"

definition round_double :: "rat \<Rightarrow> rat" where
  "round_double x =
     (if x = 0 then 0
      else
        let e = max (binary_exponent \<bar>x\<bar>) (- 1022);
            ulp = pow2 (e - 52)
        in sgn x * of_int (round_half_even (\<bar>x\<bar> / ulp)) * ulp)"

definition double_arith :: "rat arith" where
  "double_arith =
     \<lparr> fl = round_double,
       fadd = (\<lambda>x y. round_double (x + y)),
       fsub = (\<lambda>x y. round_double (x - y)),
       fmul = (\<lambda>x y. round_double (x * y)),
       fdiv = (\<lambda>x y. round_double (x / y)) \<rparr>"

section \<open>Distractor scoring (\<open>modules/enhanced_candidate_gen.py\<close>)\<close>

text \<open>
  \<open>_calculate_distractor_score\<close>, split at the two intermediate values the source names,
  \<open>similarity_score\<close> and \<open>length_score\<close>.  The weight of the length score is computed,
  \<open>1 - self.similarity_weight\<close>.  The source guards the first division with
  \<open>max_len == 0\<close> but not the second one, which raises \<open>ZeroDivisionError\<close> when both words
  are empty.
\<close>

definition normalized_distance :: "'f arith \<Rightarrow> string \<Rightarrow> string \<Rightarrow> 'f" where
  "normalized_distance ar target candidate =
     fl ar (of_nat (distance (lower target) (lower candidate))
              / of_nat (max (length target) (length candidate)))"

definition similarity_of :: "('f::linorder) arith \<Rightarrow> 'f \<Rightarrow> 'f" where
  "similarity_of ar nd =
     (if fl ar (3 / 10) \<le> nd \<and> nd \<le> fl ar (7 / 10) then fl ar 1
      else if nd < fl ar (3 / 10) then fdiv ar nd (fl ar (3 / 10))
      else max (fl ar 0)
             (fsub ar (fl ar 1) (fdiv ar (fsub ar nd (fl ar (7 / 10))) (fl ar (3 / 10)))))"

definition similarity_score :: "('f::linorder) arith \<Rightarrow> string \<Rightarrow> string \<Rightarrow> 'f" where
  "similarity_score ar target candidate =
     (if max (length target) (length candidate) = 0 then fl ar 0
      else similarity_of ar (normalized_distance ar target candidate))"

definition length_score :: "('f::linorder) arith \<Rightarrow> string \<Rightarrow> string \<Rightarrow> error + 'f" where
  "length_score ar target candidate =
     (let length_diff = \<bar>int (length target) - int (length candidate)\<bar> in
      if max (length target) (length candidate) = 0 then Inl ZeroDivisionError
      else Inr (max (fl ar 0)
                  (fsub ar (fl ar 1)
                     (fl ar (of_int length_diff
                               / of_nat (max (length target) (length candidate)))))))"

definition similarity_weight :: "'f arith \<Rightarrow> 'f" where
  "similarity_weight ar = fl ar (7 / 10)"

definition calculate_distractor_score ::
  "('f::linorder) arith \<Rightarrow> string \<Rightarrow> string \<Rightarrow> error + 'f" where
  "calculate_distractor_score ar target candidate =
     (let sim = similarity_score ar target candidate in
      case length_score ar target candidate of
        Inl e \<Rightarrow> Inl e
      | Inr ls \<Rightarrow>
          Inr (fadd ar (fmul ar (similarity_weight ar) sim)
                 (fmul ar (fsub ar (fl ar 1) (similarity_weight ar)) ls)))"

section \<open>The random source\<close>

text \<open>
  The code draws from Python's global \<open>random\<close> module (\<open>random.sample\<close>,
  \<open>random.shuffle\<close>, pandas' \<open>sample\<close>).  The model threads an explicit source of draws
  through every function that uses it: a list of naturals, read as positions.  One draw
  picks the next element among those not picked yet, so every outcome of \<open>random.sample\<close>
  (an ordered selection without replacement) and of \<open>random.shuffle\<close> (a permutation) is
  the result for some list of draws.  An exhausted source yields 0.  Every call site of
  \<open>random.sample\<close> passes a size that is at most the length of the population, so its
  \<open>ValueError\<close> cannot arise.
\<close>

type_synonym rng = "nat list"

fun draw :: "rng \<Rightarrow> nat \<times> rng" where
  "draw [] = (0, [])"
| "draw (d # ds) = (d, ds)"

fun pick :: "nat \<Rightarrow> 'a list \<Rightarrow> rng \<Rightarrow> 'a list \<times> rng" where
  "pick 0 xs r = ([], r)"
| "pick (Suc k) xs r =
     (if xs = [] then ([], r)
      else
        let (d, r1) = draw r;
            i = d mod length xs;
            (ys, r2) = pick k (take i xs @ drop (Suc i) xs) r1
        in (xs ! i # ys, r2))"

definition random_sample :: "'a list \<Rightarrow> nat \<Rightarrow> rng \<Rightarrow> 'a list \<times> rng" where
  "random_sample population k r = pick k population r"

definition random_shuffle :: "'a list \<Rightarrow> rng \<Rightarrow> 'a list \<times> rng" where
  "random_shuffle xs r = pick (length xs) xs r"

section \<open>The data model\<close>

text \<open>
  A row of the vocabulary CSV (the columns the code reads), a spaCy token (surface form,
  lemma, coarse part of speech) and the question dictionary.  The candidate generator
  reads \<open>lemma\<close>, \<open>pos\<close>, \<open>cefr\<close> and \<open>answer\<close> with \<open>dict.get\<close>, so these keys may be
  absent (\<open>None\<close>); the other keys are always present in the dictionaries the application
  builds.  The keys \<open>qid\<close>, \<open>choices\<close> and \<open>candidate\<close> are added after the fact and are
  optional as well.
\<close>

record vocab_row =
  Word :: string
  POS :: string
  CEFR :: string
  CaptionID :: string
  ImageID :: string

record token =
  tok_text :: string
  tok_lemma :: string
  tok_pos :: string

record question_data =
  q_image_id :: string
  q_id :: string
  q_caption :: string
  q_divided :: "string list"
  q_blankquestion :: "string list"
  q_answer :: "string option"
  q_lemma :: "string option"
  q_pos :: "string option"
  q_cefr :: "string option"
  q_qid :: "nat option"
  q_choices :: "string list option"
  q_candidate :: "string list option"

text \<open>
  The SQLite tables of \<open>database/db_manager.py\<close> that the operations below read or write.
  A table is the list of its rows in insertion order; \<open>learning_sessions\<close> has the text
  primary key \<open>session_id\<close> and is a map.  \<open>questions_seq\<close> is the largest \<open>qid\<close> ever
  handed out (\<open>AUTOINCREMENT\<close>).  The table \<open>generated_images\<close> is only touched by the
  image generator and is not part of the record.
\<close>

record question_row =
  qr_qid :: nat
  qr_image_id :: string
  qr_caption_id :: string
  qr_caption :: string
  qr_lemma :: string
  qr_pos :: string
  qr_cefr :: string
  qr_answer :: string
  qr_blank_question :: "string list"
  qr_divided :: "string list"

record choice_row =
  ch_qid :: nat
  choice_text :: string
  ch_is_correct :: bool
  choice_order :: nat

record log_row =
  log_user_id :: int
  log_qid :: nat
  selected_choice :: string
  log_is_correct :: bool
  log_generated_image_path :: "string option"
  log_session_id :: string

record session_row =
  user_id :: int
  mode :: string
  session_pos_filter :: string
  session_cefr_filter :: string
  total_questions :: int
  current_question :: int
  is_completed :: bool

record database =
  questions :: "question_row list"
  questions_seq :: nat
  choices :: "choice_row list"
  learning_logs :: "log_row list"
  learning_sessions :: "string \<rightharpoonup> session_row"

section \<open>Persistence (\<open>database/db_manager.py\<close>)\<close>

text \<open>
  Python truthiness of an optional string: \<open>None\<close> and the empty string are false.
\<close>

definition truthy :: "string option \<Rightarrow> bool" where
  "truthy v = (case v of None \<Rightarrow> False | Some s \<Rightarrow> s \<noteq> [])"

definition same_key :: "string \<Rightarrow> string \<Rightarrow> string \<Rightarrow> question_row \<Rightarrow> bool" where
  "same_key l p c row \<longleftrightarrow> qr_lemma row = l \<and> qr_pos row = p \<and> qr_cefr row = c"

text \<open>
  \<open>save_question\<close>.  Reading a missing key raises \<open>KeyError\<close> before the statement runs.
  The \<open>INSERT\<close> fails with \<open>IntegrityError\<close> exactly when a row with the same
  \<open>(lemma, pos, cefr)\<close> exists (\<open>UNIQUE(lemma, pos, cefr)\<close>; the columns are never null
  here); the handler then selects that row's \<open>qid\<close>.  Otherwise the row is appended with
  a fresh \<open>qid\<close>, one above every \<open>qid\<close> used before.
\<close>

definition save_question :: "database \<Rightarrow> question_data \<Rightarrow> (error + nat) \<times> database" where
  "save_question db question =
     (case q_lemma question of None \<Rightarrow> (Inl (KeyError ''lemma''), db) | Some l \<Rightarrow>
      case q_pos question of None \<Rightarrow> (Inl (KeyError ''pos''), db) | Some p \<Rightarrow>
      case q_cefr question of None \<Rightarrow> (Inl (KeyError ''cefr''), db) | Some c \<Rightarrow>
      case q_answer question of None \<Rightarrow> (Inl (KeyError ''answer''), db) | Some a \<Rightarrow>
      (case find (same_key l p c) (questions db) of
         Some existing \<Rightarrow> (Inr (qr_qid existing), db)
       | None \<Rightarrow>
           let qid = Suc (fold max (map qr_qid (questions db)) (questions_seq db));
               row = \<lparr> qr_qid = qid, qr_image_id = q_image_id question,
                       qr_caption_id = q_id question, qr_caption = q_caption question,
                       qr_lemma = l, qr_pos = p, qr_cefr = c, qr_answer = a,
                       qr_blank_question = q_blankquestion question,
                       qr_divided = q_divided question \<rparr>
           in (Inr qid, db\<lparr> questions := questions db @ [row], questions_seq := qid \<rparr>)))"

definition get_question_by_id :: "database \<Rightarrow> nat \<Rightarrow> question_data option" where
  "get_question_by_id db qid =
     (case find (\<lambda>row. qr_qid row = qid) (questions db) of
        None \<Rightarrow> None
      | Some row \<Rightarrow>
          Some \<lparr> q_image_id = qr_image_id row, q_id = qr_caption_id row,
                 q_caption = qr_caption row, q_divided = qr_divided row,
                 q_blankquestion = qr_blank_question row, q_answer = Some (qr_answer row),
                 q_lemma = Some (qr_lemma row), q_pos = Some (qr_pos row),
                 q_cefr = Some (qr_cefr row), q_qid = Some (qr_qid row),
                 q_choices = None, q_candidate = None \<rparr>)"

text \<open>
  \<open>save_choices\<close> deletes the rows of the question and inserts the new list, numbering
  the rows with \<open>enumerate\<close>; \<open>get_choices_by_qid\<close> reads them back ordered by that number.
\<close>

definition choice_rows :: "nat \<Rightarrow> string \<Rightarrow> nat \<Rightarrow> string list \<Rightarrow> choice_row list" where
  "choice_rows qid correct_answer n cs =
     map (\<lambda>(i, choice). \<lparr> ch_qid = qid, choice_text = choice,
                             ch_is_correct = (choice = correct_answer), choice_order = i \<rparr>)
         (enumerate n cs)"

definition save_choices :: "database \<Rightarrow> nat \<Rightarrow> string list \<Rightarrow> string \<Rightarrow> database" where
  "save_choices db qid cs correct_answer =
     db\<lparr> choices :=
           filter (\<lambda>row. ch_qid row \<noteq> qid) (choices db)
           @ choice_rows qid correct_answer 0 cs \<rparr>"

definition get_choices_by_qid :: "database \<Rightarrow> nat \<Rightarrow> string list" where
  "get_choices_by_qid db qid =
     map choice_text (sort_key choice_order (filter (\<lambda>row. ch_qid row = qid) (choices db)))"

definition save_learning_log :: "database \<Rightarrow> log_row \<Rightarrow> database" where
  "save_learning_log db log_data = db\<lparr> learning_logs := learning_logs db @ [log_data] \<rparr>"

definition get_session_info :: "database \<Rightarrow> string \<Rightarrow> session_row option" where
  "get_session_info db session_id = learning_sessions db session_id"

definition update_session_progress :: "database \<Rightarrow> string \<Rightarrow> database" where
  "update_session_progress db session_id =
     (case learning_sessions db session_id of
        None \<Rightarrow> db
      | Some s \<Rightarrow>
          db\<lparr> learning_sessions :=
                (learning_sessions db)
                  (session_id \<mapsto> s\<lparr> current_question := current_question s + 1 \<rparr>) \<rparr>)"

definition complete_session :: "database \<Rightarrow> string \<Rightarrow> database" where
  "complete_session db session_id =
     (case learning_sessions db session_id of
        None \<Rightarrow> db
      | Some s \<Rightarrow>
          db\<lparr> learning_sessions :=
                (learning_sessions db)(session_id \<mapsto> s\<lparr> is_completed := True \<rparr>) \<rparr>)"

section \<open>Choice generation (\<open>modules/enhanced_candidate_gen.py\<close>)\<close>

text \<open>
  pandas' \<open>drop_duplicates\<close> keeps the first occurrence of each value.
\<close>

definition drop_duplicates :: "'a list \<Rightarrow> 'a list" where
  "drop_duplicates xs = rev (remdups (rev xs))"

definition filtered_vocab :: "vocab_row list \<Rightarrow> string \<Rightarrow> string \<Rightarrow> string \<Rightarrow> string list" where
  "filtered_vocab coco_vocab lemma pos cefr =
     drop_duplicates
       (map Word
          (filter (\<lambda>row. lower (POS row) = lower pos \<and> upper (CEFR row) = upper cefr
                         \<and> lower (Word row) \<noteq> lower lemma)
                  coco_vocab))"

definition get_similarity_candidates ::
  "vocab_row list \<Rightarrow> string \<Rightarrow> string \<Rightarrow> string \<Rightarrow> nat \<Rightarrow> string list" where
  "get_similarity_candidates coco_vocab lemma pos cefr max_candidates =
     (let distances =
            filter (\<lambda>(word, d). 1 \<le> d \<and> d \<le> min (length lemma) (length word) div 2 + 2)
                   (map (\<lambda>word. (word, distance (lower lemma) (lower word)))
                        (filtered_vocab coco_vocab lemma pos cefr))
      in map fst (take max_candidates (sort_key snd distances)))"

definition get_random_candidates ::
  "vocab_row list \<Rightarrow> string \<Rightarrow> string \<Rightarrow> string \<Rightarrow> nat \<Rightarrow> rng \<Rightarrow> string list \<times> rng" where
  "get_random_candidates coco_vocab lemma pos cefr max_candidates r =
     (let fv = filtered_vocab coco_vocab lemma pos cefr in
      if fv = [] then ([], r)
      else random_sample fv (min max_candidates (length fv)) r)"

definition cefr_levels :: "string list" where
  "cefr_levels = [''A1'', ''A2'', ''B1'', ''B2'', ''C1'', ''C2'']"

fun index_of :: "'a list \<Rightarrow> 'a \<Rightarrow> nat option" where
  "index_of [] v = None"
| "index_of (x # xs) v = (if x = v then Some 0 else map_option Suc (index_of xs v))"

definition adjacent_levels :: "string \<Rightarrow> string list" where
  "adjacent_levels cefr =
     (case index_of cefr_levels (upper cefr) of
        None \<Rightarrow> []
      | Some current_index \<Rightarrow>
          (if current_index > 0 then [cefr_levels ! (current_index - 1)] else [])
          @ (if current_index < length cefr_levels - 1
             then [cefr_levels ! (current_index + 1)] else []))"

fun relaxed_loop ::
  "vocab_row list \<Rightarrow> string \<Rightarrow> string \<Rightarrow> nat \<Rightarrow> nat \<Rightarrow> string list \<Rightarrow> string list \<Rightarrow> rng
     \<Rightarrow> string list \<times> rng" where
  "relaxed_loop coco_vocab lemma pos max_candidates n [] relaxed_candidates r =
     (relaxed_candidates, r)"
| "relaxed_loop coco_vocab lemma pos max_candidates n (adj_cefr # rest) relaxed_candidates r =
     (let candidates =
            drop_duplicates
              (map Word
                 (filter (\<lambda>row. lower (POS row) = lower pos \<and> upper (CEFR row) = adj_cefr
                                \<and> lower (Word row) \<noteq> lower lemma)
                         coco_vocab))
      in if candidates \<noteq> [] then
           let (sampled, r1) =
                 random_sample candidates (min (max_candidates div n) (length candidates)) r
           in relaxed_loop coco_vocab lemma pos max_candidates n rest
                (relaxed_candidates @ sampled) r1
         else relaxed_loop coco_vocab lemma pos max_candidates n rest relaxed_candidates r)"

definition get_relaxed_cefr_candidates ::
  "vocab_row list \<Rightarrow> string \<Rightarrow> string \<Rightarrow> string \<Rightarrow> nat \<Rightarrow> rng \<Rightarrow> string list \<times> rng" where
  "get_relaxed_cefr_candidates coco_vocab lemma pos cefr max_candidates r =
     (let adj = adjacent_levels cefr in
      relaxed_loop coco_vocab lemma pos max_candidates (length adj) adj [] r)"

fun score_candidates ::
  "('f::linorder) arith \<Rightarrow> string \<Rightarrow> string list \<Rightarrow> error + (string \<times> 'f) list" where
  "score_candidates ar target [] = Inr []"
| "score_candidates ar target (candidate # rest) =
     (case calculate_distractor_score ar target candidate of
        Inl e \<Rightarrow> Inl e
      | Inr score \<Rightarrow>
          (case score_candidates ar target rest of
             Inl e \<Rightarrow> Inl e
           | Inr scored \<Rightarrow> Inr ((candidate, score) # scored)))"

text \<open>
  \<open>list.sort(key = score, reverse = True)\<close> sorts by descending score and is stable:
  candidates of equal score keep their order.  \<open>sort_descending\<close> is that sort: the stable
  ascending \<open>sort_key\<close> applied to the reversed list, reversed again.
\<close>

definition sort_descending :: "('a \<Rightarrow> 'k::linorder) \<Rightarrow> 'a list \<Rightarrow> 'a list" where
  "sort_descending key xs = rev (sort_key key (rev xs))"

definition select_best_distractors ::
  "('f::linorder) arith \<Rightarrow> string \<Rightarrow> string list \<Rightarrow> nat \<Rightarrow> rng
     \<Rightarrow> error + string list \<times> rng" where
  "select_best_distractors ar target_lemma candidates num_select r =
     (if length candidates \<le> num_select then Inr (candidates, r)
      else
        case score_candidates ar target_lemma candidates of
          Inl e \<Rightarrow> Inl e
        | Inr scored_candidates \<Rightarrow>
            let top_candidates =
                  take (num_select * 2) (sort_descending snd scored_candidates);
                (selected, r1) =
                  random_sample top_candidates (min num_select (length top_candidates)) r
            in Inr (map fst selected, r1))"

definition get_fallback_distractors ::
  "vocab_row list \<Rightarrow> string \<Rightarrow> string \<Rightarrow> rng \<Rightarrow> string list \<times> rng" where
  "get_fallback_distractors coco_vocab lemma pos r =
     (let fallback_vocab =
            drop_duplicates
              (map Word
                 (filter (\<lambda>row. lower (POS row) = lower pos \<and> lower (Word row) \<noteq> lower lemma)
                         coco_vocab))
      in if fallback_vocab \<noteq> [] then
           random_sample fallback_vocab (min 5 (length fallback_vocab)) r
         else ([], r))"

definition num_distractors :: nat where
  "num_distractors = 2"

definition total_choices :: nat where
  "total_choices = 3"

text \<open>
  \<open>_generate_new_choices\<close>.  \<open>list(set(candidates))\<close> removes duplicates and leaves the
  order to the hash of the strings; the model takes that order from the random source as
  well.  The result \<open>None\<close> is the early return on missing data.
\<close>

definition generate_new_choices ::
  "('f::linorder) arith \<Rightarrow> vocab_row list \<Rightarrow> question_data \<Rightarrow> rng
     \<Rightarrow> error + string list option \<times> rng" where
  "generate_new_choices ar coco_vocab question r =
     (let pos = lower (case q_pos question of None \<Rightarrow> [] | Some p \<Rightarrow> p);
          cefr = upper (case q_cefr question of None \<Rightarrow> [] | Some c \<Rightarrow> c)
      in
      if \<not> (truthy (q_lemma question) \<and> pos \<noteq> [] \<and> cefr \<noteq> [] \<and> truthy (q_answer question))
      then Inr (None, r)
      else
        case (q_lemma question, q_answer question) of
          (Some lemma, Some correct_answer) \<Rightarrow>
            let similarity_candidates = get_similarity_candidates coco_vocab lemma pos cefr 10;
                (random_candidates, r1) = get_random_candidates coco_vocab lemma pos cefr 15 r;
                (relaxed_candidates, r2) =
                  get_relaxed_cefr_candidates coco_vocab lemma pos cefr 10 r1;
                candidates = similarity_candidates @ random_candidates @ relaxed_candidates;
                (as_set, r3) = random_shuffle (remdups candidates) r2;
                unique_candidates = filter (\<lambda>c. lower c \<noteq> lower correct_answer) as_set
            in (case select_best_distractors ar lemma unique_candidates num_distractors r3 of
                  Inl e \<Rightarrow> Inl e
                | Inr (best_distractors, r4) \<Rightarrow>
                    if length best_distractors < num_distractors then
                      let (additional_candidates, r5) =
                            get_fallback_distractors coco_vocab lemma pos r4;
                          padded = best_distractors
                            @ take (num_distractors - length best_distractors)
                                   additional_candidates
                      in Inr (Some (correct_answer # take num_distractors padded), r5)
                    else Inr (Some (correct_answer # take num_distractors best_distractors), r4))
        | _ \<Rightarrow> Inr (None, r))"

definition fallback_dict :: "string \<Rightarrow> string list" where
  "fallback_dict pos =
     (if pos = ''noun'' then [''thing'', ''person'', ''place'', ''time'', ''way'']
      else if pos = ''verb'' then [''go'', ''come'', ''make'', ''take'', ''get'']
      else if pos = ''adjective'' then [''good'', ''new'', ''big'', ''small'', ''old'']
      else if pos = ''adverb'' then [''well'', ''now'', ''here'', ''there'', ''very'']
      else [''option1'', ''option2''])"

definition generate_fallback_choices :: "question_data \<Rightarrow> rng \<Rightarrow> string list \<times> rng" where
  "generate_fallback_choices question r =
     (let correct_answer = (case q_answer question of None \<Rightarrow> ''unknown'' | Some a \<Rightarrow> a);
          pos = lower (case q_pos question of None \<Rightarrow> [] | Some p \<Rightarrow> p);
          fallback_candidates = fallback_dict pos;
          distractors =
            take 2 (filter (\<lambda>c. lower c \<noteq> lower correct_answer) fallback_candidates)
      in random_shuffle (correct_answer # distractors) r)"

text \<open>
  The state of an \<open>EnhancedCandidateGenerator\<close>: the database it shares, its in-memory
  cache (keyed by the question id) and the random source.
\<close>

record cg_state =
  cg_db :: database
  choices_cache :: "nat \<rightharpoonup> string list"
  cg_rng :: rng

definition get_or_generate_choices ::
  "('f::linorder) arith \<Rightarrow> vocab_row list \<Rightarrow> cg_state \<Rightarrow> nat \<Rightarrow> question_data \<Rightarrow> bool
     \<Rightarrow> (error + string list) \<times> cg_state" where
  "get_or_generate_choices ar coco_vocab st qid question force_regenerate =
     (case (if force_regenerate then None else choices_cache st qid) of
        Some cached \<Rightarrow> (Inr cached, st)
      | None \<Rightarrow>
          let existing_choices = get_choices_by_qid (cg_db st) qid in
          if \<not> force_regenerate \<and> existing_choices \<noteq> []
             \<and> length existing_choices = total_choices
          then
            let (shuffled_choices, r1) = random_shuffle existing_choices (cg_rng st)
            in (Inr shuffled_choices,
                st\<lparr> choices_cache := (choices_cache st)(qid \<mapsto> shuffled_choices), cg_rng := r1 \<rparr>)
          else
            (case generate_new_choices ar coco_vocab question (cg_rng st) of
               Inl e \<Rightarrow> (Inl e, st)
             | Inr (Some new_choices, r1) \<Rightarrow>
                 if new_choices \<noteq> [] then
                   (case q_answer question of
                      None \<Rightarrow> (Inl (KeyError ''answer''), st\<lparr> cg_rng := r1 \<rparr>)
                    | Some answer \<Rightarrow>
                        let db1 = save_choices (cg_db st) qid new_choices answer;
                            (shuffled_choices, r2) = random_shuffle new_choices r1
                        in (Inr shuffled_choices,
                            st\<lparr> cg_db := db1,
                                choices_cache := (choices_cache st)(qid \<mapsto> shuffled_choices),
                                cg_rng := r2 \<rparr>))
                 else
                   let (fallback, r2) = generate_fallback_choices question r1
                   in (Inr fallback, st\<lparr> cg_rng := r2 \<rparr>)
             | Inr (None, r1) \<Rightarrow>
                 let (fallback, r2) = generate_fallback_choices question r1
                 in (Inr fallback, st\<lparr> cg_rng := r2 \<rparr>)))"

definition clear_cache :: "cg_state \<Rightarrow> cg_state" where
  "clear_cache st = st\<lparr> choices_cache := Map.empty \<rparr>"

text \<open>
  Whether a call ends in the last resort, \<open>_generate_fallback_choices\<close>: it is not
  answered from the cache or the database, and \<open>_generate_new_choices\<close> returns \<open>None\<close>.
\<close>

definition final_fallback ::
  "('f::linorder) arith \<Rightarrow> vocab_row list \<Rightarrow> cg_state \<Rightarrow> nat \<Rightarrow> question_data \<Rightarrow> bool
     \<Rightarrow> bool" where
  "final_fallback ar coco_vocab st qid question force_regenerate \<longleftrightarrow>
     (force_regenerate \<or> choices_cache st qid = None)
     \<and> (force_regenerate \<or> length (get_choices_by_qid (cg_db st) qid) \<noteq> total_choices)
     \<and> (case generate_new_choices ar coco_vocab question (cg_rng st) of
           Inr (None, r) \<Rightarrow> True
         | _ \<Rightarrow> False)"

text \<open>
  What can happen to one generator object between two retrievals: a call of
  \<open>get_or_generate_choices\<close> on it (with its question id, question and
  \<open>force_regenerate\<close> flag), or a change of the database and of the random source by other
  components, which share both with the generator.  \<open>run_events\<close> is the state of the
  generator after a sequence of such events.
\<close>

datatype event =
    Call nat question_data bool
  | SharedStateChange database rng

definition regenerates :: "nat \<Rightarrow> event \<Rightarrow> bool" where
  "regenerates qid e =
     (case e of Call k question force_regenerate \<Rightarrow> k = qid \<and> force_regenerate
      | SharedStateChange d r \<Rightarrow> False)"

fun run_events :: "('f::linorder) arith \<Rightarrow> vocab_row list \<Rightarrow> cg_state \<Rightarrow> event list \<Rightarrow> cg_state" where
  "run_events ar coco_vocab st [] = st"
| "run_events ar coco_vocab st (Call qid question force_regenerate # events) =
     run_events ar coco_vocab
       (snd (get_or_generate_choices ar coco_vocab st qid question force_regenerate)) events"
| "run_events ar coco_vocab st (SharedStateChange d r # events) =
     run_events ar coco_vocab (st\<lparr> cg_db := d, cg_rng := r \<rparr>) events"

section \<open>Question synthesis (\<open>modules/enhanced_question_gen.py\<close>)\<close>

text \<open>
  \<open>_process_caption_with_spacy\<close>.  The spaCy pipeline is outside the repository: \<open>nlp\<close>
  maps a caption to its tokens, or to \<open>None\<close> when the call raises (the source catches
  every exception and returns \<open>None\<close>).  The two loops over the tokens are kept as loops;
  the second one carries \<open>answer_word\<close> and \<open>blanked_tokens\<close>.
\<close>

fun divided_loop :: "token list \<Rightarrow> string list \<Rightarrow> string list" where
  "divided_loop [] divided = divided"
| "divided_loop (t # doc) divided =
     (if tok_pos t \<noteq> ''ADV'' then divided_loop doc (divided @ [tok_lemma t])
      else divided_loop doc (divided @ [tok_text t]))"

fun blank_loop ::
  "string \<Rightarrow> token list \<Rightarrow> string option \<Rightarrow> string list \<Rightarrow> string option \<times> string list" where
  "blank_loop target_word [] answer_word blanked_tokens = (answer_word, blanked_tokens)"
| "blank_loop target_word (t # doc) answer_word blanked_tokens =
     (if lower (tok_lemma t) = lower target_word
      then blank_loop target_word doc (Some (tok_text t)) (blanked_tokens @ [''()''])
      else blank_loop target_word doc answer_word (blanked_tokens @ [tok_text t]))"

definition process_caption_with_spacy ::
  "(string \<Rightarrow> token list option) \<Rightarrow> string \<Rightarrow> string \<Rightarrow> string \<Rightarrow> string \<Rightarrow> string \<Rightarrow> string
     \<Rightarrow> question_data option" where
  "process_caption_with_spacy nlp caption target_word cap_id img_id pos_filter cefr_filter =
     (case nlp caption of
        None \<Rightarrow> None
      | Some doc \<Rightarrow>
          let divided = divided_loop doc [];
              (answer_word, blanked_tokens) = blank_loop target_word doc None []
          in if \<not> truthy answer_word then None
             else Some \<lparr> q_image_id = img_id, q_id = cap_id, q_caption = caption,
                         q_divided = divided, q_blankquestion = blanked_tokens,
                         q_answer = answer_word, q_lemma = Some target_word,
                         q_pos = Some (lower pos_filter), q_cefr = Some (upper cefr_filter),
                         q_qid = None, q_choices = None, q_candidate = None \<rparr>)"

text \<open>
  What the question generator holds: the vocabulary, the caption table, the tokenizer,
  and the vocabulary that the candidate generator it creates on demand loads.
\<close>

record qg_env =
  qg_coco_vocab :: "vocab_row list"
  caption_dict :: "string \<rightharpoonup> string"
  qg_nlp :: "string \<Rightarrow> token list option"
  cand_vocab :: "vocab_row list"

definition get_excluded_lemmas_from_session :: "database \<Rightarrow> nat list \<Rightarrow> string list" where
  "get_excluded_lemmas_from_session db exclude_qids =
     List.map_filter
       (\<lambda>qid. case get_question_by_id db qid of None \<Rightarrow> None | Some question \<Rightarrow> q_lemma question)
       exclude_qids"

fun try_rows :: "qg_env \<Rightarrow> string \<Rightarrow> string \<Rightarrow> vocab_row list \<Rightarrow> question_data option" where
  "try_rows env pos_filter cefr_filter [] = None"
| "try_rows env pos_filter cefr_filter (row # rest) =
     (case caption_dict env (CaptionID row) of
        None \<Rightarrow> try_rows env pos_filter cefr_filter rest
      | Some original_caption \<Rightarrow>
          if original_caption = [] then try_rows env pos_filter cefr_filter rest
          else
            (case process_caption_with_spacy (qg_nlp env) original_caption (Word row)
                    (CaptionID row) (ImageID row) pos_filter cefr_filter of
               Some question \<Rightarrow> Some question
             | None \<Rightarrow> try_rows env pos_filter cefr_filter rest))"

definition generate_random_question_from_csv ::
  "qg_env \<Rightarrow> database \<Rightarrow> string \<Rightarrow> string \<Rightarrow> nat list \<Rightarrow> nat \<Rightarrow> rng
     \<Rightarrow> question_data option \<times> rng" where
  "generate_random_question_from_csv env db pos_filter cefr_filter exclude_qids max_attempts r =
     (let excluded_lemmas = get_excluded_lemmas_from_session db exclude_qids;
          filtered =
            filter (\<lambda>row. lower (POS row) = lower pos_filter
                          \<and> upper (CEFR row) = upper cefr_filter
                          \<and> Word row \<notin> set excluded_lemmas)
                   (qg_coco_vocab env)
      in if filtered = [] then (None, r)
         else
           let max_sample_attempts = min max_attempts (length filtered);
               (sampled_vocab, r1) = random_sample filtered max_sample_attempts r
           in (try_rows env pos_filter cefr_filter sampled_vocab, r1))"

definition check_existing_question :: "database \<Rightarrow> question_data \<Rightarrow> nat option" where
  "check_existing_question db question =
     (if \<not> (truthy (q_lemma question) \<and> truthy (q_pos question) \<and> truthy (q_cefr question))
      then None
      else
        case (q_lemma question, q_pos question, q_cefr question) of
          (Some l, Some p, Some c) \<Rightarrow>
            map_option qr_qid (find (same_key l (lower p) (upper c)) (questions db))
        | _ \<Rightarrow> None)"

text \<open>
  \<open>_generate_and_save_choices\<close> creates a fresh candidate generator (empty cache) on the
  shared database and calls it.  The question always carries an answer here.
\<close>

definition generate_and_save_choices ::
  "('f::linorder) arith \<Rightarrow> qg_env \<Rightarrow> database \<Rightarrow> rng \<Rightarrow> nat \<Rightarrow> question_data
     \<Rightarrow> (error + question_data) \<times> database \<times> rng" where
  "generate_and_save_choices ar env d r qid question =
     (case get_or_generate_choices ar (cand_vocab env)
             \<lparr> cg_db = d, choices_cache = Map.empty, cg_rng = r \<rparr> qid question False of
        (Inl e, st) \<Rightarrow> (Inl e, cg_db st, cg_rng st)
      | (Inr cs, st) \<Rightarrow>
          (case q_answer question of
             None \<Rightarrow> (Inl (KeyError ''answer''), cg_db st, cg_rng st)
           | Some answer \<Rightarrow>
               (Inr (question\<lparr> q_choices := Some cs,
                               q_candidate := Some (filter (\<lambda>c. c \<noteq> answer) cs) \<rparr>),
                cg_db st, cg_rng st)))"

text \<open>
  \<open>get_or_generate_question\<close>.  \<open>if existing_qid\<close> is Python truthiness of an optional
  integer: \<open>None\<close> and 0 take the \<open>else\<close> branch.  The parameter \<open>force_new\<close> of the source
  is never read and is left out.
\<close>

definition get_or_generate_question ::
  "('f::linorder) arith \<Rightarrow> qg_env \<Rightarrow> database \<Rightarrow> rng \<Rightarrow> string \<Rightarrow> string \<Rightarrow> nat list \<Rightarrow> nat
     \<Rightarrow> (error + question_data option) \<times> database \<times> rng" where
  "get_or_generate_question ar env d r pos_filter cefr_filter exclude_qids max_attempts =
     (case generate_random_question_from_csv env d pos_filter cefr_filter exclude_qids
             max_attempts r of
        (None, r1) \<Rightarrow> (Inr None, d, r1)
      | (Some new_question, r1) \<Rightarrow>
          let existing_qid = check_existing_question d new_question in
          if existing_qid \<noteq> None \<and> existing_qid \<noteq> Some 0 then
            let q1 = new_question\<lparr> q_qid := existing_qid \<rparr>;
                cs = (case existing_qid of None \<Rightarrow> [] | Some qid \<Rightarrow> get_choices_by_qid d qid)
            in if cs \<noteq> [] then
                 (case q_answer q1 of
                    None \<Rightarrow> (Inl (KeyError ''answer''), d, r1)
                  | Some answer \<Rightarrow>
                      (Inr (Some (q1\<lparr> q_choices := Some cs,
                                       q_candidate := Some (filter (\<lambda>c. c \<noteq> answer) cs) \<rparr>)),
                       d, r1))
               else (Inr (Some q1), d, r1)
          else
            (case save_question d new_question of
               (Inl e, d1) \<Rightarrow> (Inl e, d1, r1)
             | (Inr qid, d1) \<Rightarrow>
                 (case generate_and_save_choices ar env d1 r1 qid
                         (new_question\<lparr> q_qid := Some qid \<rparr>) of
                    (Inl e, d2, r2) \<Rightarrow> (Inl e, d2, r2)
                  | (Inr q2, d2, r2) \<Rightarrow> (Inr (Some q2), d2, r2))))"

section \<open>Answer processing (\<open>modules/result_processor.py\<close>)\<close>

text \<open>
  The feedback dictionary.  Keys that only one of the two kinds of feedback has are
  optional (\<open>image_path\<close> is present, with the value \<open>None\<close>, in the feedback for a correct
  answer only).  The two fixed messages and the two explanation templates are Japanese text;
  they are represented by the template and the value interpolated into it.
\<close>

datatype message = MsgCorrect | MsgIncorrect

datatype explanation = ExplainCorrectAnswerIs "string option" | ExplainLookAtImageFor string

record feedback =
  fb_result_type :: string
  fb_is_correct :: bool
  fb_message :: message
  fb_completed_sentence :: string
  fb_original_caption :: string
  fb_user_answer :: "string option"
  fb_correct_answer :: "string option"
  fb_show_correct_answer :: "bool option"
  fb_image_path :: "string option option"
  fb_generated_image_path :: "string option"
  fb_image_available :: "bool option"
  fb_explanation :: explanation
  fb_image_id :: string

text \<open>
  The image generator is an object handed to the \<open>ResultProcessor\<close>; the one call made to
  it either raises or returns an optional path.  That outcome is an input of the model.
  The generator writes only its own table and cache.
\<close>

datatype image_outcome = ImageRaises | ImageReturns "string option"

fun contains :: "string \<Rightarrow> string \<Rightarrow> bool" where
  "contains [] t = (t = [])"
| "contains (c # cs) t = (take (length t) (c # cs) = t \<or> contains cs t)"

definition startswith :: "string \<Rightarrow> string \<Rightarrow> bool" where
  "startswith s p = (take (length p) s = p)"

definition endswith :: "string \<Rightarrow> string \<Rightarrow> bool" where
  "endswith s p = (length p \<le> length s \<and> drop (length s - length p) s = p)"

fun join_loop :: "string \<Rightarrow> string \<Rightarrow> string list \<Rightarrow> string" where
  "join_loop sentence previous [] = sentence"
| "join_loop sentence previous (tok # rest) =
     (if contains ''.,!?;:'' tok then join_loop (sentence @ tok) tok rest
      else if startswith tok [CHR 0x27] \<or> endswith previous [CHR 0x27]
        then join_loop (sentence @ tok) tok rest
      else join_loop (sentence @ '' '' @ tok) tok rest)"

definition join_tokens_to_sentence :: "string list \<Rightarrow> string" where
  "join_tokens_to_sentence tokens =
     (case tokens of [] \<Rightarrow> [] | first # rest \<Rightarrow> join_loop first first rest)"

definition fill_blanks :: "string list \<Rightarrow> string \<Rightarrow> string list" where
  "fill_blanks blank_question answer =
     map (\<lambda>tok. if tok = ''()'' then answer else tok) blank_question"

definition generate_completed_sentence :: "string list \<Rightarrow> string \<Rightarrow> string" where
  "generate_completed_sentence blank_question answer =
     join_tokens_to_sentence (fill_blanks blank_question answer)"

definition process_correct_answer :: "question_data \<Rightarrow> string \<Rightarrow> feedback" where
  "process_correct_answer question correct_answer =
     \<lparr> fb_result_type = ''correct'', fb_is_correct = True, fb_message = MsgCorrect,
       fb_completed_sentence =
         generate_completed_sentence (q_blankquestion question) correct_answer,
       fb_original_caption = q_caption question,
       fb_user_answer = None,
       fb_correct_answer = Some correct_answer,
       fb_show_correct_answer = None,
       fb_image_path = Some None,
       fb_generated_image_path = None,
       fb_image_available = None,
       fb_explanation = ExplainCorrectAnswerIs (Some correct_answer),
       fb_image_id = q_image_id question \<rparr>"

definition process_incorrect_answer ::
  "question_data \<Rightarrow> string \<Rightarrow> string \<Rightarrow> image_outcome \<Rightarrow> feedback" where
  "process_incorrect_answer question correct_answer user_answer img =
     (let generated_image_path = (case img of ImageRaises \<Rightarrow> None | ImageReturns p \<Rightarrow> p)
      in \<lparr> fb_result_type = ''incorrect'', fb_is_correct = False, fb_message = MsgIncorrect,
           fb_completed_sentence =
             generate_completed_sentence (q_blankquestion question) user_answer,
           fb_original_caption = q_caption question,
           fb_user_answer = Some user_answer,
           fb_correct_answer = Some correct_answer,
           fb_show_correct_answer = Some False,
           fb_image_path = None,
           fb_generated_image_path = generated_image_path,
           fb_image_available = Some (generated_image_path \<noteq> None),
           fb_explanation = ExplainLookAtImageFor user_answer,
           fb_image_id = q_image_id question \<rparr>)"

text \<open>
  \<open>process_user_answer\<close>.  A question without an answer makes \<open>correct_answer.strip()\<close>
  raise \<open>AttributeError\<close>; an unknown session raises \<open>ValueError\<close>.  Both happen before
  anything is written.  \<open>_save_learning_log\<close> appends the row (a failure there would be
  logged and swallowed).
\<close>

definition process_user_answer ::
  "database \<Rightarrow> string \<Rightarrow> nat \<Rightarrow> question_data \<Rightarrow> string \<Rightarrow> image_outcome
     \<Rightarrow> (error + feedback) \<times> database" where
  "process_user_answer d session_id qid question user_answer img =
     (case q_answer question of
        None \<Rightarrow> (Inl AttributeError, d)
      | Some correct_answer \<Rightarrow>
          let is_correct = (lower (strip user_answer) = lower (strip correct_answer)) in
          (case get_session_info d session_id of
             None \<Rightarrow> (Inl (ValueError (''Session not found: '' @ session_id)), d)
           | Some session_info \<Rightarrow>
               let fb = (if is_correct then process_correct_answer question correct_answer
                         else process_incorrect_answer question correct_answer user_answer img);
                   d1 = save_learning_log d
                          \<lparr> log_user_id = user_id session_info, log_qid = qid,
                            selected_choice = user_answer, log_is_correct = is_correct,
                            log_generated_image_path = fb_generated_image_path fb,
                            log_session_id = session_id \<rparr>;
                   d2 = update_session_progress d1 session_id
               in (Inr fb, d2)))"

definition check_session_completion :: "database \<Rightarrow> string \<Rightarrow> bool \<times> database" where
  "check_session_completion d session_id =
     (case get_session_info d session_id of
        None \<Rightarrow> (False, d)
      | Some session_info \<Rightarrow>
          if current_question session_info \<ge> total_questions session_info
          then (True, complete_session d session_id)
          else (is_completed session_info, d))"

text \<open>
  The core operations on sessions, as a caller can issue them in any order.
\<close>

datatype operation =
    ProcessUserAnswer string nat question_data string image_outcome
  | UpdateSessionProgress string
  | CompleteSession string
  | CheckSessionCompletion string

fun apply_operation :: "database \<Rightarrow> operation \<Rightarrow> database" where
  "apply_operation d (ProcessUserAnswer session_id qid question user_answer img) =
     snd (process_user_answer d session_id qid question user_answer img)"
| "apply_operation d (UpdateSessionProgress session_id) = update_session_progress d session_id"
| "apply_operation d (CompleteSession session_id) = complete_session d session_id"
| "apply_operation d (CheckSessionCompletion session_id) =
     snd (check_session_completion d session_id)"

definition run_operations :: "database \<Rightarrow> operation list \<Rightarrow> database" where
  "run_operations d ops = fold (\<lambda>op acc. apply_operation acc op) ops d"

section \<open>Example data\<close>

text \<open>
  Concrete inputs at which the theorems below are instantiated: the question of the
  self-test in \<open>db_manager.py\<close>, a database holding one fresh session, and one holding a
  session that has reached its last question.
\<close>

definition example_question :: question_data where
  "example_question =
     \<lparr> q_image_id = ''123456'', q_id = ''789'', q_caption = ''A cat sitting on a table'',
       q_divided = [''A'', ''cat'', ''sit'', ''on'', ''a'', ''table''],
       q_blankquestion = [''A'', ''()'', ''sitting'', ''on'', ''a'', ''table''],
       q_answer = Some ''cat'', q_lemma = Some ''cat'', q_pos = Some ''noun'',
       q_cefr = Some ''A1'', q_qid = Some 1, q_choices = None, q_candidate = None \<rparr>"

definition empty_database :: database where
  "empty_database =
     \<lparr> questions = [], questions_seq = 0, choices = [], learning_logs = [],
       learning_sessions = Map.empty \<rparr>"

definition fresh_session :: session_row where
  "fresh_session =
     \<lparr> user_id = 1, mode = ''learning'', session_pos_filter = ''noun'',
       session_cefr_filter = ''A1'', total_questions = 10, current_question = 0,
       is_completed = False \<rparr>"

definition finished_session :: session_row where
  "finished_session = fresh_session\<lparr> total_questions := 2, current_question := 2,
                                      is_completed := True \<rparr>"

definition session_database :: "session_row \<Rightarrow> database" where
  "session_database s = empty_database\<lparr> learning_sessions := [''s1'' \<mapsto> s] \<rparr>"

text \<open>
  A vocabulary with two nouns, a generator on the empty database, and a question
  dictionary without the key \<open>lemma\<close>.
\<close>

definition cat_dog_vocab :: "vocab_row list" where
  "cat_dog_vocab =
     [\<lparr> Word = ''cat'', POS = ''noun'', CEFR = ''A1'', CaptionID = ''789'', ImageID = ''123456'' \<rparr>,
      \<lparr> Word = ''dog'', POS = ''noun'', CEFR = ''A1'', CaptionID = ''7'', ImageID = ''42'' \<rparr>]"

definition fresh_generator :: "rng \<Rightarrow> cg_state" where
  "fresh_generator r = \<lparr> cg_db = empty_database, choices_cache = Map.empty, cg_rng = r \<rparr>"

definition question_without_lemma :: question_data where
  "question_without_lemma = example_question\<lparr> q_lemma := None \<rparr>"

text \<open>
  Two tokenized captions: one in which the target lemma \<open>cat\<close> occurs once, and one in
  which the lemma \<open>dog\<close> occurs twice with different surface forms.
\<close>

definition cat_doc :: "token list" where
  "cat_doc =
     [\<lparr> tok_text = ''A'', tok_lemma = ''A'', tok_pos = ''DET'' \<rparr>,
      \<lparr> tok_text = ''cat'', tok_lemma = ''cat'', tok_pos = ''NOUN'' \<rparr>,
      \<lparr> tok_text = ''sitting'', tok_lemma = ''sit'', tok_pos = ''VERB'' \<rparr>,
      \<lparr> tok_text = ''on'', tok_lemma = ''on'', tok_pos = ''ADP'' \<rparr>,
      \<lparr> tok_text = ''a'', tok_lemma = ''a'', tok_pos = ''DET'' \<rparr>,
      \<lparr> tok_text = ''table'', tok_lemma = ''table'', tok_pos = ''NOUN'' \<rparr>]"

definition two_dogs_doc :: "token list" where
  "two_dogs_doc =
     [\<lparr> tok_text = ''A'', tok_lemma = ''a'', tok_pos = ''DET'' \<rparr>,
      \<lparr> tok_text = ''dog'', tok_lemma = ''dog'', tok_pos = ''NOUN'' \<rparr>,
      \<lparr> tok_text = ''chasing'', tok_lemma = ''chase'', tok_pos = ''VERB'' \<rparr>,
      \<lparr> tok_text = ''other'', tok_lemma = ''other'', tok_pos = ''ADJ'' \<rparr>,
      \<lparr> tok_text = ''dogs'', tok_lemma = ''dog'', tok_pos = ''NOUN'' \<rparr>]"

definition example_nlp :: "string \<Rightarrow> token list option" where
  "example_nlp caption =
     (if caption = ''A cat sitting on a table'' then Some cat_doc
      else if caption = ''A dog chasing other dogs'' then Some two_dogs_doc
      else None)"

definition two_dogs_question :: question_data where
  "two_dogs_question =
     \<lparr> q_image_id = ''42'', q_id = ''7'', q_caption = ''A dog chasing other dogs'',
       q_divided = [''a'', ''dog'', ''chase'', ''other'', ''dog''],
       q_blankquestion = [''A'', ''()'', ''chasing'', ''other'', ''()''],
       q_answer = Some ''dogs'', q_lemma = Some ''dog'', q_pos = Some ''noun'',
       q_cefr = Some ''A1'', q_qid = None, q_choices = None, q_candidate = None \<rparr>"

text \<open>
  A question generator on the two-noun vocabulary with the two captions, and a database
  in which the question for \<open>(cat, noun, A1)\<close> is already stored.
\<close>

definition example_env :: qg_env where
  "example_env =
     \<lparr> qg_coco_vocab = cat_dog_vocab,
       caption_dict = [''789'' \<mapsto> ''A cat sitting on a table'',
                       ''7'' \<mapsto> ''A dog chasing other dogs''],
       qg_nlp = example_nlp,
       cand_vocab = cat_dog_vocab \<rparr>"

definition cat_row :: question_row where
  "cat_row =
     \<lparr> qr_qid = 1, qr_image_id = ''123456'', qr_caption_id = ''789'',
       qr_caption = ''A cat sitting on a table'', qr_lemma = ''cat'', qr_pos = ''noun'',
       qr_cefr = ''A1'', qr_answer = ''cat'',
       qr_blank_question = [''A'', ''()'', ''sitting'', ''on'', ''a'', ''table''],
       qr_divided = [''A'', ''cat'', ''sit'', ''on'', ''a'', ''table''] \<rparr>"

definition question_database :: database where
  "question_database = empty_database\<lparr> questions := [cat_row], questions_seq := 1 \<rparr>"

text \<open>
  A database that holds three choices for question 1, and the feedback for the wrong
  answer \<open>dog\<close> to the example question when the image generator raises.
\<close>

definition choices_database :: database where
  "choices_database =
     empty_database
       \<lparr> choices :=
           [\<lparr> ch_qid = 1, choice_text = ''cat'', ch_is_correct = True, choice_order = 0 \<rparr>,
            \<lparr> ch_qid = 1, choice_text = ''dog'', ch_is_correct = False, choice_order = 1 \<rparr>,
            \<lparr> ch_qid = 1, choice_text = ''bird'', ch_is_correct = False, choice_order = 2 \<rparr>] \<rparr>"

definition dog_feedback :: feedback where
  "dog_feedback =
     \<lparr> fb_result_type = ''incorrect'', fb_is_correct = False, fb_message = MsgIncorrect,
       fb_completed_sentence = ''A dog sitting on a table'',
       fb_original_caption = ''A cat sitting on a table'',
       fb_user_answer = Some ''dog'',
       fb_correct_answer = Some ''cat'',
       fb_show_correct_answer = Some False,
       fb_image_path = None,
       fb_generated_image_path = None,
       fb_image_available = Some False,
       fb_explanation = ExplainLookAtImageFor ''dog'',
       fb_image_id = ''123456'' \<rparr>"

text \<open>
  The test of the blanking loop, named for use in the statements below.
\<close>

definition matches_target :: "string \<Rightarrow> token \<Rightarrow> bool" where
  "matches_target target_word t \<longleftrightarrow> lower (tok_lemma t) = lower target_word"

section \<open>Properties of the distractor score\<close>

lemma length_lower [simp]: "length (lower s) = length s"
  by (simp add: lower_def)

lemma round_double_0: "round_double 0 = 0"
  by (simp add: round_double_def)

lemma round_double_1: "round_double 1 = 1"
  by code_simp

text \<open>
  The doubles written \<open>0.3\<close> and \<open>0.7\<close>, and the double that \<open>1 - 0.7\<close> evaluates to, which
  Python prints as \<open>0.30000000000000004\<close>.
\<close>

lemma double_weights:
  "round_double (3 / 10) = 5404319552844595 / 18014398509481984"
  "round_double (7 / 10) = 3152519739159347 / 4503599627370496"
  "round_double (1 - round_double (7 / 10)) = 1351079888211149 / 4503599627370496"
  by code_simp+

text \<open>
  Two scores that the exact formula \<open>0.7 * similarity + 0.3 * length\<close> would make equal
  (\<open>97/120\<close>): in double precision the candidate \<open>cows\<close> scores \<open>0.8083333333333331\<close> and
  the candidate \<open>cats\<close> scores \<open>0.8083333333333333\<close>.
\<close>

lemma double_scores_cat:
  "calculate_distractor_score double_arith ''cat'' ''cows''
     = Inr (1820204849395575 / 2251799813685248)"
  "calculate_distractor_score double_arith ''cat'' ''cats''
     = Inr (3640409698791151 / 4503599627370496)"
  by code_simp+

lemma normalized_distance_cat_cats: "normalized_distance double_arith ''cat'' ''cats'' = 1 / 4"
  by code_simp

lemma similarity_cat_cats:
  "similarity_score double_arith ''cat'' ''cats'' = 7505999378950827 / 9007199254740992"
  by code_simp

lemma similarity_of_half: "similarity_of double_arith (1 / 2) = 1"
  by code_simp

lemma score_cat_dog:
  "calculate_distractor_score double_arith ''cat'' ''dog''
     = Inr (1351079888211149 / 4503599627370496)"
  "similarity_score double_arith ''cat'' ''dog'' = 0"
  "length_score double_arith ''cat'' ''dog'' = Inr 1"
  by code_simp+

lemma round_double_idem_0_3:
  "round_double (5404319552844595 / 18014398509481984) = 5404319552844595 / 18014398509481984"
  by code_simp

lemma claimed_cat_dog:
  "round_double (round_double (round_double (7 / 10) * 0)
                  + round_double (round_double (3 / 10) * 1))
     = 5404319552844595 / 18014398509481984"
  unfolding mult_zero_right mult_1_right round_double_0 add.left_neutral double_weights(1)
    round_double_idem_0_3
  by (rule refl)

lemma score_empty: "calculate_distractor_score double_arith [] [] = Inl ZeroDivisionError"
  by (simp add: calculate_distractor_score_def length_score_def)

lemma distance_Cat_cats:
  "distance ''Cat'' ''cats'' = 2"
  "normalized_distance double_arith ''Cat'' ''cats'' = 1 / 4"
  by code_simp+

text \<open>
  Claim C4, as stated, fails in three places.  For target \<open>cat\<close> and candidate \<open>dog\<close> the
  similarity score is 0 and the length score is 1, so the claimed score is \<open>0.3\<close>, and
  the code returns \<open>0.30000000000000004\<close>, which is neither the rational \<open>3/10\<close> nor the
  double \<open>0.3\<close>: the weight of the length score is the double \<open>1 - 0.7\<close>.  For two empty
  words the code raises \<open>ZeroDivisionError\<close>.  For target \<open>Cat\<close> and candidate \<open>cats\<close> the
  Levenshtein distance is 2, and the code's normalized distance is \<open>0.25\<close>, not \<open>0.5\<close>: it
  measures the lower-cased words.
\<close>

theorem calculate_distractor_score_counterexample:
  "calculate_distractor_score double_arith ''cat'' ''dog''
     = Inr (1351079888211149 / 4503599627370496)
   \<and> similarity_score double_arith ''cat'' ''dog'' = 0
   \<and> length_score double_arith ''cat'' ''dog'' = Inr 1
   \<and> (1351079888211149 / 4503599627370496 :: rat) \<noteq> 7 / 10 * 0 + 3 / 10 * 1
   \<and> round_double (round_double (round_double (7 / 10) * 0)
                      + round_double (round_double (3 / 10) * 1))
       = 5404319552844595 / 18014398509481984
   \<and> (1351079888211149 / 4503599627370496 :: rat) \<noteq> 5404319552844595 / 18014398509481984
   \<and> calculate_distractor_score double_arith [] [] = Inl ZeroDivisionError
   \<and> distance ''Cat'' ''cats'' = 2
   \<and> normalized_distance double_arith ''Cat'' ''cats'' = 1 / 4"
proof -
  have ne1: "(1351079888211149 / 4503599627370496 :: rat) \<noteq> 7 / 10 * 0 + 3 / 10 * 1"
    by simp
  have ne2: "(1351079888211149 / 4503599627370496 :: rat)
               \<noteq> 5404319552844595 / 18014398509481984"
    by simp
  show ?thesis
    by (intro conjI score_cat_dog claimed_cat_dog score_empty distance_Cat_cats ne1 ne2)
qed

text \<open>
  Claim C4, amended.  For every target word and candidate word that are not both empty,
  the distractor score is \<open>0.7 * similarity_score + (1 - 0.7) * length_score\<close> evaluated in
  double precision, every operation rounded; the weight \<open>1 - 0.7\<close> is the double
  \<open>0.30000000000000004\<close>, not \<open>0.3\<close>.  The normalized distance is the Levenshtein
  distance of the lower-cased words divided by the maximum of the two lengths.  The
  similarity score is 1.0 when the normalized distance lies in \<open>[0.3, 0.7]\<close>, the
  normalized distance divided by \<open>0.3\<close> below \<open>0.3\<close>, and
  \<open>max(0, 1 - (normalized_distance - 0.7) / 0.3)\<close> above \<open>0.7\<close>; the length score is
  \<open>max(0, 1 - |len(target) - len(candidate)| / max(len(target), len(candidate)))\<close>.  For
  target \<open>cat\<close> and candidate \<open>cats\<close> the normalized distance is \<open>0.25\<close> and the similarity
  score is strictly less than that of a candidate at normalized distance exactly \<open>0.5\<close>,
  which is 1.0.
\<close>

theorem calculate_distractor_score_formula:
  assumes "target \<noteq> [] \<or> candidate \<noteq> []"
  shows "calculate_distractor_score double_arith target candidate =
           (let nd = round_double
                       (of_nat (distance (lower target) (lower candidate))
                          / of_nat (max (length target) (length candidate)));
                sim = (if round_double (3 / 10) \<le> nd \<and> nd \<le> round_double (7 / 10) then 1
                       else if nd < round_double (3 / 10)
                         then round_double (nd / round_double (3 / 10))
                       else max 0 (round_double
                                     (1 - round_double
                                            (round_double (nd - round_double (7 / 10))
                                               / round_double (3 / 10)))));
                ls = max 0 (round_double
                              (1 - round_double
                                     (of_int \<bar>int (length target) - int (length candidate)\<bar>
                                        / of_nat (max (length target) (length candidate)))))
            in Inr (round_double
                      (round_double (round_double (7 / 10) * sim)
                         + round_double (round_double (1 - round_double (7 / 10)) * ls))))
         \<and> round_double (1 - round_double (7 / 10)) = 1351079888211149 / 4503599627370496
         \<and> round_double (3 / 10) = 5404319552844595 / 18014398509481984
         \<and> normalized_distance double_arith ''cat'' ''cats'' = 1 / 4
         \<and> (normalized_distance double_arith target candidate = 1 / 2 \<longrightarrow>
              similarity_score double_arith target candidate = 1
              \<and> similarity_score double_arith ''cat'' ''cats''
                  < similarity_score double_arith target candidate)"
proof -
  from assms have pos: "max (length target) (length candidate) \<noteq> 0"
    by auto
  have score: "calculate_distractor_score double_arith target candidate =
           (let nd = round_double
                       (of_nat (distance (lower target) (lower candidate))
                          / of_nat (max (length target) (length candidate)));
                sim = (if round_double (3 / 10) \<le> nd \<and> nd \<le> round_double (7 / 10) then 1
                       else if nd < round_double (3 / 10)
                         then round_double (nd / round_double (3 / 10))
                       else max 0 (round_double
                                     (1 - round_double
                                            (round_double (nd - round_double (7 / 10))
                                               / round_double (3 / 10)))));
                ls = max 0 (round_double
                              (1 - round_double
                                     (of_int \<bar>int (length target) - int (length candidate)\<bar>
                                        / of_nat (max (length target) (length candidate)))))
            in Inr (round_double
                      (round_double (round_double (7 / 10) * sim)
                         + round_double (round_double (1 - round_double (7 / 10)) * ls))))"
    using assms
    unfolding calculate_distractor_score_def length_score_def similarity_score_def
      similarity_of_def normalized_distance_def similarity_weight_def double_arith_def Let_def
    by (cases "target = []"; cases "candidate = []"; simp add: round_double_0 round_double_1)
  have half: "similarity_score double_arith target candidate = 1"
    if "normalized_distance double_arith target candidate = 1 / 2"
  proof -
    have "similarity_score double_arith target candidate =
            similarity_of double_arith (normalized_distance double_arith target candidate)"
      using assms by (auto simp: similarity_score_def)
    also have "\<dots> = 1"
      unfolding that by (rule similarity_of_half)
    finally show ?thesis .
  qed
  have less: "similarity_score double_arith ''cat'' ''cats'' < 1"
    by (simp add: similarity_cat_cats)
  have at_half: "normalized_distance double_arith target candidate = 1 / 2 \<longrightarrow>
              similarity_score double_arith target candidate = 1
              \<and> similarity_score double_arith ''cat'' ''cats''
                  < similarity_score double_arith target candidate"
  proof (intro impI conjI)
    assume a: "normalized_distance double_arith target candidate = 1 / 2"
    show "similarity_score double_arith target candidate = 1"
      by (rule half [OF a])
    show "similarity_score double_arith ''cat'' ''cats''
            < similarity_score double_arith target candidate"
      unfolding half [OF a] by (rule less)
  qed
  show ?thesis
    by (intro conjI score double_weights(3) double_weights(1) normalized_distance_cat_cats
        at_half)
qed

theorem calculate_distractor_score_formula_witness:
  "''cats'' \<noteq> []
   \<and> normalized_distance double_arith ''cats'' ''cows'' = 1 / 2
   \<and> calculate_distractor_score double_arith ''cats'' ''cows'' = Inr 1
   \<and> similarity_score double_arith ''cats'' ''cows'' = 1
   \<and> similarity_score double_arith ''cat'' ''cats'' < similarity_score double_arith ''cats'' ''cows''"
proof -
  have h: "''cats'' \<noteq> [] \<or> ''cows'' \<noteq> []"
    by simp
  have nd: "normalized_distance double_arith ''cats'' ''cows'' = 1 / 2"
    by code_simp
  note formula = calculate_distractor_score_formula [OF h]
  have score: "calculate_distractor_score double_arith ''cats'' ''cows'' = Inr 1"
    by (rule trans [OF conjunct1 [OF formula]]) code_simp
  from formula nd
  have "similarity_score double_arith ''cats'' ''cows'' = 1
        \<and> similarity_score double_arith ''cat'' ''cats''
            < similarity_score double_arith ''cats'' ''cows''"
    by blast
  with nd score show ?thesis
    by simp
qed


section \<open>Properties of answer processing and sessions\<close>

text \<open>
  Claim C8.  A call of \<open>process_user_answer\<close> with a session id that is not in the store
  fails: it raises \<open>ValueError\<close> with the message \<open>Session not found: <id>\<close> (for a question
  dictionary without an answer the earlier \<open>AttributeError\<close> is raised instead), and the
  database after the call is the database before it, so no log row is appended and no
  session has changed.
\<close>

theorem process_user_answer_unknown_session:
  assumes "learning_sessions d session_id = None"
  shows "process_user_answer d session_id qid question user_answer img =
           (Inl (if q_answer question = None then AttributeError
                 else ValueError (''Session not found: '' @ session_id)), d)"
  using assms
  by (simp add: process_user_answer_def get_session_info_def Let_def split: option.splits)

theorem process_user_answer_unknown_session_witness:
  "learning_sessions empty_database ''s1'' = None
   \<and> process_user_answer empty_database ''s1'' 1 example_question ''dog'' (ImageReturns None)
       = (Inl (ValueError ''Session not found: s1''), empty_database)"
  using process_user_answer_unknown_session
          [of empty_database "''s1''" 1 example_question "''dog''" "ImageReturns None"]
  by (simp add: empty_database_def example_question_def)

lemma example_dog_feedback:
  "fst (process_user_answer (session_database fresh_session) ''s1'' 1 example_question
          ''dog'' ImageRaises) = Inr dog_feedback"
  by code_simp

text \<open>
  Claim C7, as stated, fails: the feedback does not withhold the correct answer.  For the
  wrong answer \<open>dog\<close> to the example question, whose answer is \<open>cat\<close>, the feedback returned
  holds \<open>cat\<close> under \<open>correct_answer\<close> and holds the original caption, which contains the
  answer.
\<close>

theorem feedback_withheld_counterexample:
  "fst (process_user_answer (session_database fresh_session) ''s1'' 1 example_question
          ''dog'' ImageRaises) = Inr dog_feedback
   \<and> q_answer example_question = Some ''cat''
   \<and> fb_correct_answer dog_feedback = Some ''cat''
   \<and> fb_original_caption dog_feedback = ''A cat sitting on a table''"
  by (intro conjI example_dog_feedback)
     (simp_all add: example_question_def dog_feedback_def)

text \<open>
  Claim C7, amended.  In a known session, an answer that differs from the question's
  answer after trimming and case folding is processed without an exception, whatever the
  image generator does.  The feedback has \<open>is_correct = False\<close> and
  \<open>show_correct_answer = False\<close>, and its sentence and explanation are built from the
  learner's answer.  The feedback still carries the correct answer, under
  \<open>correct_answer\<close>, and the original caption; the flag \<open>show_correct_answer = False\<close> is all
  that marks the answer as not to be shown.  If the image
  generator raises or returns nothing, \<open>generated_image_path\<close> is \<open>None\<close> and
  \<open>image_available\<close> is \<open>False\<close>; otherwise the path is passed on and \<open>image_available\<close> is
  \<open>True\<close>.
\<close>

theorem process_user_answer_incorrect:
  assumes "learning_sessions d session_id = Some s"
      and "q_answer question = Some a"
      and "lower (strip user_answer) \<noteq> lower (strip a)"
  shows "\<exists>fb d'. process_user_answer d session_id qid question user_answer img = (Inr fb, d')
           \<and> \<not> fb_is_correct fb
           \<and> fb_show_correct_answer fb = Some False
           \<and> fb_correct_answer fb = Some a
           \<and> fb_original_caption fb = q_caption question
           \<and> fb_explanation fb = ExplainLookAtImageFor user_answer
           \<and> fb_completed_sentence fb =
               generate_completed_sentence (q_blankquestion question) user_answer
           \<and> (case img of
                 ImageRaises \<Rightarrow>
                   fb_generated_image_path fb = None \<and> fb_image_available fb = Some False
               | ImageReturns None \<Rightarrow>
                   fb_generated_image_path fb = None \<and> fb_image_available fb = Some False
               | ImageReturns (Some p) \<Rightarrow>
                   fb_generated_image_path fb = Some p \<and> fb_image_available fb = Some True)"
  using assms
  by (simp add: process_user_answer_def get_session_info_def Let_def process_incorrect_answer_def
      split: image_outcome.splits option.splits)

lemma strip_dog: "lower (strip ''dog'') = ''dog''"
  by (simp add: strip_def isspace_def lower_def lower_char_def)

lemma strip_cat: "lower (strip ''cat'') = ''cat''"
  by (simp add: strip_def isspace_def lower_def lower_char_def)

theorem process_user_answer_incorrect_witness:
  "learning_sessions (session_database fresh_session) ''s1'' = Some fresh_session
   \<and> q_answer example_question = Some ''cat''
   \<and> lower (strip ''dog'') \<noteq> lower (strip ''cat'')
   \<and> (\<exists>fb d'. process_user_answer (session_database fresh_session) ''s1'' 1 example_question
                  ''dog'' ImageRaises = (Inr fb, d')
          \<and> \<not> fb_is_correct fb
          \<and> fb_show_correct_answer fb = Some False
          \<and> fb_generated_image_path fb = None
          \<and> fb_image_available fb = Some False)"
proof -
  have h1: "learning_sessions (session_database fresh_session) ''s1'' = Some fresh_session"
    by (simp add: session_database_def)
  have h2: "q_answer example_question = Some ''cat''"
    by (simp add: example_question_def)
  have h3: "lower (strip ''dog'') \<noteq> lower (strip ''cat'')"
    by (simp add: strip_dog strip_cat)
  from process_user_answer_incorrect [OF h1 h2 h3, of 1 ImageRaises]
  show ?thesis
    using h1 h2 h3 by auto
qed

lemma apply_operation_session:
  assumes "learning_sessions d sid = Some s"
  shows "\<exists>s'. learning_sessions (apply_operation d op) sid = Some s'
           \<and> current_question s \<le> current_question s'
           \<and> (is_completed s \<longrightarrow> is_completed s')"
  using assms
  by (cases op)
     (auto simp: process_user_answer_def get_session_info_def Let_def save_learning_log_def
        update_session_progress_def complete_session_def check_session_completion_def
        split: option.splits if_splits)

lemma run_operations_session:
  assumes "learning_sessions d sid = Some s"
  shows "\<exists>s'. learning_sessions (run_operations d ops) sid = Some s'
           \<and> current_question s \<le> current_question s'
           \<and> (is_completed s \<longrightarrow> is_completed s')"
  using assms
proof (induction ops arbitrary: d s)
  case Nil
  then show ?case by (simp add: run_operations_def)
next
  case (Cons op ops)
  from apply_operation_session [OF Cons.prems, of op]
  obtain s1 where s1: "learning_sessions (apply_operation d op) sid = Some s1"
    and le1: "current_question s \<le> current_question s1"
    and c1: "is_completed s \<longrightarrow> is_completed s1"
    by blast
  from Cons.IH [OF s1]
  obtain s2 where "learning_sessions (run_operations (apply_operation d op) ops) sid = Some s2"
    and "current_question s1 \<le> current_question s2"
    and "is_completed s1 \<longrightarrow> is_completed s2"
    by blast
  with le1 c1 show ?case
    by (auto simp: run_operations_def)
qed

lemma process_user_answer_advances:
  assumes "learning_sessions d sid = Some s"
      and "q_answer question = Some a"
  shows "\<exists>fb d'. process_user_answer d sid qid question user_answer img = (Inr fb, d')
           \<and> learning_sessions d' sid = Some (s\<lparr> current_question := current_question s + 1 \<rparr>)"
  using assms
  by (auto simp: process_user_answer_def get_session_info_def Let_def save_learning_log_def
        update_session_progress_def split: option.splits)

text \<open>
  Claim C5.  Take a session of the store and any sequence of the core operations
  (\<open>process_user_answer\<close>, \<open>update_session_progress\<close>, \<open>complete_session\<close>,
  \<open>check_session_completion\<close>, on this or on any other session id).  After the sequence
  the session is still there, its \<open>current_question\<close> is not smaller than before, and if
  \<open>is_completed\<close> was true it is still true.  Processing one answer for the session (with a
  question that has an answer) succeeds and leaves \<open>current_question\<close> exactly one higher.
\<close>

theorem session_progress_monotone:
  assumes "learning_sessions d sid = Some s"
  shows "(\<exists>s'. learning_sessions (run_operations d ops) sid = Some s'
            \<and> current_question s \<le> current_question s'
            \<and> (is_completed s \<longrightarrow> is_completed s'))
         \<and> (q_answer question \<noteq> None \<longrightarrow>
              (\<exists>fb d' s'. process_user_answer d sid qid question user_answer img = (Inr fb, d')
                 \<and> learning_sessions d' sid = Some s'
                 \<and> current_question s' = current_question s + 1))"
proof
  show "\<exists>s'. learning_sessions (run_operations d ops) sid = Some s'
            \<and> current_question s \<le> current_question s'
            \<and> (is_completed s \<longrightarrow> is_completed s')"
    by (rule run_operations_session [OF assms])
next
  show "q_answer question \<noteq> None \<longrightarrow>
          (\<exists>fb d' s'. process_user_answer d sid qid question user_answer img = (Inr fb, d')
             \<and> learning_sessions d' sid = Some s'
             \<and> current_question s' = current_question s + 1)"
  proof
    assume "q_answer question \<noteq> None"
    then obtain a where a: "q_answer question = Some a"
      by blast
    from process_user_answer_advances [OF assms a, of qid user_answer img]
    show "\<exists>fb d' s'. process_user_answer d sid qid question user_answer img = (Inr fb, d')
             \<and> learning_sessions d' sid = Some s'
             \<and> current_question s' = current_question s + 1"
      by auto
  qed
qed

theorem session_progress_monotone_witness:
  "learning_sessions (session_database finished_session) ''s1'' = Some finished_session
   \<and> is_completed finished_session
   \<and> q_answer example_question \<noteq> None
   \<and> (\<exists>s'. learning_sessions
              (run_operations (session_database finished_session)
                 [ProcessUserAnswer ''s1'' 1 example_question ''dog'' ImageRaises,
                  CheckSessionCompletion ''s1'',
                  UpdateSessionProgress ''s1'']) ''s1'' = Some s'
          \<and> 2 \<le> current_question s' \<and> is_completed s')
   \<and> (\<exists>fb d' s'. process_user_answer (session_database finished_session) ''s1'' 1
                     example_question ''dog'' ImageRaises = (Inr fb, d')
          \<and> learning_sessions d' ''s1'' = Some s' \<and> current_question s' = 3)"
proof -
  have h: "learning_sessions (session_database finished_session) ''s1'' = Some finished_session"
    by (simp add: session_database_def)
  have c: "is_completed finished_session" "current_question finished_session = 2"
    by (simp_all add: finished_session_def fresh_session_def)
  have a: "q_answer example_question \<noteq> None"
    by (simp add: example_question_def)
  from session_progress_monotone [OF h,
         of "[ProcessUserAnswer ''s1'' 1 example_question ''dog'' ImageRaises,
              CheckSessionCompletion ''s1'', UpdateSessionProgress ''s1'']"
            example_question 1 "''dog''" ImageRaises]
  show ?thesis
    using h c a by simp
qed


section \<open>Properties of caption processing\<close>

lemma blank_loop_eq:
  "blank_loop target_word doc answer_word blanked_tokens =
     (if filter (matches_target target_word) doc = [] then answer_word
      else Some (tok_text (last (filter (matches_target target_word) doc))),
      blanked_tokens
        @ map (\<lambda>t. if matches_target target_word t then ''()'' else tok_text t) doc)"
  by (induction doc arbitrary: answer_word blanked_tokens) (auto simp: matches_target_def)

lemma process_caption_Some:
  assumes "process_caption_with_spacy nlp caption target_word cap_id img_id pos_filter cefr_filter
             = Some question"
  shows "\<exists>doc. nlp caption = Some doc
           \<and> filter (matches_target target_word) doc \<noteq> []
           \<and> q_answer question =
               Some (tok_text (last (filter (matches_target target_word) doc)))
           \<and> q_blankquestion question =
               map (\<lambda>t. if matches_target target_word t then ''()'' else tok_text t) doc"
  using assms
  by (auto simp: process_caption_with_spacy_def blank_loop_eq truthy_def Let_def
      split: option.splits if_splits)

lemma example_two_dogs:
  "process_caption_with_spacy example_nlp ''A dog chasing other dogs'' ''dog'' ''7'' ''42''
     ''noun'' ''a1'' = Some two_dogs_question"
  by (simp add: process_caption_with_spacy_def example_nlp_def two_dogs_doc_def
      two_dogs_question_def truthy_def lower_def lower_char_def upper_def upper_char_def)

lemma example_cat:
  "process_caption_with_spacy example_nlp ''A cat sitting on a table'' ''cat'' ''789'' ''123456''
     ''Noun'' ''a1'' = Some (example_question\<lparr> q_qid := None \<rparr>)"
  by (simp add: process_caption_with_spacy_def example_nlp_def cat_doc_def
      example_question_def truthy_def lower_def lower_char_def upper_def upper_char_def)

text \<open>
  Claim C2, as stated, fails: the caption \<open>A dog chasing other dogs\<close> with target lemma
  \<open>dog\<close> gives a question whose blanks, filled with the stored answer \<open>dogs\<close>, do not spell
  the caption's tokens.
\<close>

theorem fill_blanks_roundtrip_counterexample:
  "process_caption_with_spacy example_nlp ''A dog chasing other dogs'' ''dog'' ''7'' ''42''
     ''noun'' ''a1'' = Some two_dogs_question
   \<and> q_answer two_dogs_question = Some ''dogs''
   \<and> fill_blanks (q_blankquestion two_dogs_question) ''dogs''
       = [''A'', ''dogs'', ''chasing'', ''other'', ''dogs'']
   \<and> map tok_text two_dogs_doc = [''A'', ''dog'', ''chasing'', ''other'', ''dogs'']
   \<and> fill_blanks (q_blankquestion two_dogs_question) ''dogs'' \<noteq> map tok_text two_dogs_doc"
  by (simp add: example_two_dogs two_dogs_question_def two_dogs_doc_def fill_blanks_def)

text \<open>
  Claim C2, amended.  Every question the synthesizer produces has at least one
  placeholder \<open>()\<close> in its blanked tokens.  Replacing every placeholder with the stored
  answer gives back the caption's token sequence provided that every token matching the
  target lemma has the stored answer as its surface form (so in particular when the lemma
  occurs once) and no other token is itself the text \<open>()\<close>.
\<close>

theorem fill_blanks_roundtrip:
  assumes "process_caption_with_spacy nlp caption target_word cap_id img_id pos_filter cefr_filter
             = Some question"
  shows "''()'' \<in> set (q_blankquestion question)
         \<and> (\<exists>doc answer. nlp caption = Some doc \<and> q_answer question = Some answer
              \<and> ((\<forall>t \<in> set doc. if matches_target target_word t then tok_text t = answer
                                  else tok_text t \<noteq> ''()'')
                   \<longrightarrow> fill_blanks (q_blankquestion question) answer = map tok_text doc))"
proof -
  from process_caption_Some [OF assms]
  obtain doc where doc: "nlp caption = Some doc"
    and some: "filter (matches_target target_word) doc \<noteq> []"
    and ans: "q_answer question =
                Some (tok_text (last (filter (matches_target target_word) doc)))"
    and blank: "q_blankquestion question =
                  map (\<lambda>t. if matches_target target_word t then ''()'' else tok_text t) doc"
    by blast
  from some obtain t where "t \<in> set doc" "matches_target target_word t"
    by (metis filter_False)
  then have placeholder: "''()'' \<in> set (q_blankquestion question)"
    unfolding blank by force
  have "fill_blanks (q_blankquestion question) answer = map tok_text doc"
    if "\<forall>t \<in> set doc. if matches_target target_word t then tok_text t = answer
                        else tok_text t \<noteq> ''()''"
    for answer
    using that unfolding blank fill_blanks_def by (induction doc) auto
  with placeholder doc ans show ?thesis
    by blast
qed

theorem fill_blanks_roundtrip_witness:
  "process_caption_with_spacy example_nlp ''A cat sitting on a table'' ''cat'' ''789'' ''123456''
     ''Noun'' ''a1'' = Some (example_question\<lparr> q_qid := None \<rparr>)
   \<and> ''()'' \<in> set (q_blankquestion example_question)
   \<and> filter (matches_target ''cat'') cat_doc
       = [\<lparr> tok_text = ''cat'', tok_lemma = ''cat'', tok_pos = ''NOUN'' \<rparr>]
   \<and> ''()'' \<notin> set (map tok_text cat_doc)
   \<and> fill_blanks (q_blankquestion example_question) ''cat'' = map tok_text cat_doc"
proof -
  have h: "\<forall>t \<in> set cat_doc. if matches_target ''cat'' t then tok_text t = ''cat''
                              else tok_text t \<noteq> ''()''"
    by (simp add: cat_doc_def matches_target_def lower_def lower_char_def)
  have n: "example_nlp ''A cat sitting on a table'' = Some cat_doc"
    by (simp add: example_nlp_def)
  have a: "q_answer (example_question\<lparr> q_qid := None \<rparr>) = Some ''cat''"
    by (simp add: example_question_def)
  have m: "filter (matches_target ''cat'') cat_doc
             = [\<lparr> tok_text = ''cat'', tok_lemma = ''cat'', tok_pos = ''NOUN'' \<rparr>]"
    "''()'' \<notin> set (map tok_text cat_doc)"
    by (simp_all add: cat_doc_def matches_target_def lower_def lower_char_def)
  from fill_blanks_roundtrip [OF example_cat] n a h
  show ?thesis
    using example_cat m by auto
qed

text \<open>
  Claim C3, as stated, fails: in the caption \<open>A dog chasing other dogs\<close> the first token
  with lemma \<open>dog\<close> has the surface form \<open>dog\<close>, and the stored answer is \<open>dogs\<close>.
\<close>

theorem answer_first_match_counterexample:
  "process_caption_with_spacy example_nlp ''A dog chasing other dogs'' ''dog'' ''7'' ''42''
     ''noun'' ''a1'' = Some two_dogs_question
   \<and> tok_text (hd (filter (matches_target ''dog'') two_dogs_doc)) = ''dog''
   \<and> q_answer two_dogs_question = Some ''dogs''
   \<and> q_answer two_dogs_question
       \<noteq> Some (tok_text (hd (filter (matches_target ''dog'') two_dogs_doc)))"
  by (simp add: example_two_dogs two_dogs_question_def two_dogs_doc_def matches_target_def
      lower_def lower_char_def)

text \<open>
  Claim C3, amended.  For every caption the synthesizer processes successfully, at least
  one token matches the target lemma (case-insensitively on the token's lemma), the stored
  answer is the surface form of the LAST matching token, every matching position holds the
  placeholder in the blanked tokens and every other position holds its surface form.
\<close>

theorem answer_is_last_match:
  assumes "process_caption_with_spacy nlp caption target_word cap_id img_id pos_filter cefr_filter
             = Some question"
  shows "\<exists>doc. nlp caption = Some doc
           \<and> filter (matches_target target_word) doc \<noteq> []
           \<and> q_answer question =
               Some (tok_text (last (filter (matches_target target_word) doc)))
           \<and> length (q_blankquestion question) = length doc
           \<and> (\<forall>i < length doc.
                 q_blankquestion question ! i =
                   (if matches_target target_word (doc ! i) then ''()'' else tok_text (doc ! i)))"
proof -
  from process_caption_Some [OF assms]
  obtain doc where doc: "nlp caption = Some doc"
    and some: "filter (matches_target target_word) doc \<noteq> []"
    and ans: "q_answer question =
                Some (tok_text (last (filter (matches_target target_word) doc)))"
    and blank: "q_blankquestion question =
                  map (\<lambda>t. if matches_target target_word t then ''()'' else tok_text t) doc"
    by blast
  from blank have "length (q_blankquestion question) = length doc"
    by simp
  moreover from blank have "\<forall>i < length doc.
      q_blankquestion question ! i =
        (if matches_target target_word (doc ! i) then ''()'' else tok_text (doc ! i))"
    by simp
  ultimately show ?thesis
    using doc some ans by blast
qed

theorem answer_is_last_match_witness:
  "process_caption_with_spacy example_nlp ''A dog chasing other dogs'' ''dog'' ''7'' ''42''
     ''noun'' ''a1'' = Some two_dogs_question
   \<and> filter (matches_target ''dog'') two_dogs_doc \<noteq> []
   \<and> q_answer two_dogs_question
       = Some (tok_text (last (filter (matches_target ''dog'') two_dogs_doc)))
   \<and> length (q_blankquestion two_dogs_question) = length two_dogs_doc
   \<and> q_blankquestion two_dogs_question ! 1 = ''()''
   \<and> q_blankquestion two_dogs_question ! 2 = tok_text (two_dogs_doc ! 2)
   \<and> q_blankquestion two_dogs_question ! 4 = ''()''"
proof -
  have n: "example_nlp ''A dog chasing other dogs'' = Some two_dogs_doc"
    by (simp add: example_nlp_def)
  have m: "matches_target ''dog'' (two_dogs_doc ! 1)" "\<not> matches_target ''dog'' (two_dogs_doc ! 2)"
    "matches_target ''dog'' (two_dogs_doc ! 4)" "length two_dogs_doc = 5"
    by (simp_all add: two_dogs_doc_def matches_target_def lower_def lower_char_def)
  from answer_is_last_match [OF example_two_dogs] n
  have "filter (matches_target ''dog'') two_dogs_doc \<noteq> []
        \<and> q_answer two_dogs_question
            = Some (tok_text (last (filter (matches_target ''dog'') two_dogs_doc)))
        \<and> length (q_blankquestion two_dogs_question) = length two_dogs_doc
        \<and> (\<forall>i < length two_dogs_doc.
              q_blankquestion two_dogs_question ! i =
                (if matches_target ''dog'' (two_dogs_doc ! i) then ''()''
                 else tok_text (two_dogs_doc ! i)))"
    by simp
  with m example_two_dogs show ?thesis
    by simp
qed

section \<open>Properties of the stored choices\<close>

lemma sort_key_sorted_id: "sorted (map f xs) \<Longrightarrow> sort_key f xs = xs"
  by (induction xs) (auto simp: insort_is_Cons)

lemma choice_rows_order: "map choice_order (choice_rows qid a n cs) = [n..<n + length cs]"
  by (induction cs arbitrary: n) (auto simp: choice_rows_def upt_rec)

lemma choice_rows_text: "map choice_text (choice_rows qid a n cs) = cs"
  by (induction cs arbitrary: n) (auto simp: choice_rows_def)

lemma choice_rows_qid: "row \<in> set (choice_rows qid a n cs) \<Longrightarrow> ch_qid row = qid"
  by (induction cs arbitrary: n) (auto simp: choice_rows_def)

lemma filter_saved:
  "filter (\<lambda>row. ch_qid row = k) (choices (save_choices d qid cs a)) =
     (if k = qid then choice_rows qid a 0 cs else filter (\<lambda>row. ch_qid row = k) (choices d))"
proof -
  have new: "filter (\<lambda>row. ch_qid row = k) (choice_rows qid a 0 cs) =
               (if k = qid then choice_rows qid a 0 cs else [])"
    by (auto simp: filter_empty_conv filter_id_conv dest: choice_rows_qid)
  have old: "filter (\<lambda>row. ch_qid row = k) (filter (\<lambda>row. ch_qid row \<noteq> qid) rows) =
               (if k = qid then [] else filter (\<lambda>row. ch_qid row = k) rows)" for rows
    by (induction rows) auto
  have rows: "choices (save_choices d qid cs a) =
          filter (\<lambda>row. ch_qid row \<noteq> qid) (choices d) @ choice_rows qid a 0 cs"
    by (simp add: save_choices_def)
  show ?thesis
    unfolding rows filter_append new old by simp
qed

lemma get_after_save: "get_choices_by_qid (save_choices d qid cs a) qid = cs"
proof -
  have "sorted (map choice_order (choice_rows qid a 0 cs))"
    unfolding choice_rows_order by simp
  then have "sort_key choice_order (choice_rows qid a 0 cs) = choice_rows qid a 0 cs"
    by (rule sort_key_sorted_id)
  then show ?thesis
    unfolding get_choices_by_qid_def filter_saved by (simp add: choice_rows_text)
qed

lemma get_after_save_other:
  "k \<noteq> qid \<Longrightarrow> get_choices_by_qid (save_choices d qid cs a) k = get_choices_by_qid d k"
  unfolding get_choices_by_qid_def filter_saved by simp

text \<open>
  Whatever the draws, a shuffle returns a permutation of its argument.
\<close>

lemma mset_pick: "k = length xs \<Longrightarrow> mset (fst (pick k xs r)) = mset xs"
proof (induction k xs r rule: pick.induct)
  case (1 xs r)
  then show ?case by simp
next
  case (2 k xs r)
  show ?case
  proof (cases "xs = []")
    case True
    then show ?thesis by simp
  next
    case False
    obtain d r1 where dr: "draw r = (d, r1)"
      by (cases "draw r")
    define i where "i = d mod length xs"
    have i: "i < length xs"
      using False by (simp add: i_def)
    obtain ys r2 where p: "pick k (take i xs @ drop (Suc i) xs) r1 = (ys, r2)"
      by (cases "pick k (take i xs @ drop (Suc i) xs) r1")
    have len: "k = length (take i xs @ drop (Suc i) xs)"
      using 2(2) i by simp
    from 2(1) [OF False refl dr [symmetric] i_def len] p
    have "mset ys = mset (take i xs @ drop (Suc i) xs)"
      by simp
    moreover have "xs = take i xs @ xs ! i # drop (Suc i) xs"
      using i by (simp add: id_take_nth_drop)
    then have "mset xs = add_mset (xs ! i) (mset (take i xs @ drop (Suc i) xs))"
      by (metis mset.simps(2) mset_append union_mset_add_mset_right)
    ultimately show ?thesis
      using False dr p by (simp add: i_def Let_def)
  qed
qed

lemma mset_random_shuffle: "random_shuffle xs r = (ys, r') \<Longrightarrow> mset ys = mset xs"
  using mset_pick [of "length xs" xs r] by (simp add: random_shuffle_def)

lemma generate_new_choices_Some:
  assumes "generate_new_choices ar coco_vocab question r = Inr (Some cs, r')"
  shows "\<exists>answer distractors. q_answer question = Some answer \<and> cs = answer # distractors
           \<and> length distractors \<le> 2"
  using assms
  by (auto simp: generate_new_choices_def Let_def num_distractors_def truthy_def
      split: if_splits option.splits sum.splits prod.splits)

lemma new_generation_call:
  assumes "force_regenerate
           \<or> (choices_cache st qid = None
              \<and> length (get_choices_by_qid (cg_db st) qid) \<noteq> total_choices)"
      and "generate_new_choices ar coco_vocab question (cg_rng st) = Inr (Some new_choices, r1)"
      and "q_answer question = Some answer"
      and "random_shuffle new_choices r1 = (shuffled, r2)"
  shows "get_or_generate_choices ar coco_vocab st qid question force_regenerate =
          (Inr shuffled,
           st\<lparr> cg_db := save_choices (cg_db st) qid new_choices answer,
               choices_cache := (choices_cache st)(qid \<mapsto> shuffled), cg_rng := r2 \<rparr>)"
proof -
  from generate_new_choices_Some [OF assms(2)] have "new_choices \<noteq> []"
    by auto
  with assms show ?thesis
    by (auto simp: get_or_generate_choices_def Let_def)
qed

text \<open>
  The two-noun vocabulary: for the question about \<open>cat\<close> the only candidate is \<open>dog\<close>, from
  every source and for every state of the random source.
\<close>

lemma filtered_cat_dog: "filtered_vocab cat_dog_vocab ''cat'' ''noun'' ''A1'' = [''dog'']"
  by (simp add: filtered_vocab_def cat_dog_vocab_def drop_duplicates_def lower_def lower_char_def
      upper_def upper_char_def)

lemma sim_cat_dog: "get_similarity_candidates cat_dog_vocab ''cat'' ''noun'' ''A1'' 10 = [''dog'']"
  by (simp add: get_similarity_candidates_def filtered_cat_dog lower_def lower_char_def)

lemma rand_cat_dog:
  "get_random_candidates cat_dog_vocab ''cat'' ''noun'' ''A1'' 15 r = ([''dog''], snd (draw r))"
  by (simp add: get_random_candidates_def filtered_cat_dog random_sample_def case_prod_beta)

lemma relaxed_cat_dog:
  "get_relaxed_cefr_candidates cat_dog_vocab ''cat'' ''noun'' ''A1'' 10 r = ([], r)"
  by (simp add: get_relaxed_cefr_candidates_def adjacent_levels_def cefr_levels_def
      upper_def upper_char_def cat_dog_vocab_def drop_duplicates_def lower_def lower_char_def)

lemma fallback_cat_dog:
  "get_fallback_distractors cat_dog_vocab ''cat'' ''noun'' r = ([''dog''], snd (draw r))"
  by (simp add: get_fallback_distractors_def cat_dog_vocab_def drop_duplicates_def lower_def
      lower_char_def random_sample_def case_prod_beta)

lemma new_choices_cat_dog:
  "generate_new_choices ar cat_dog_vocab example_question r =
     Inr (Some [''cat'', ''dog'', ''dog''], snd (draw (snd (draw (snd (draw r))))))"
proof -
  have l: "lower ''noun'' = ''noun''" "upper ''A1'' = ''A1''" "lower ''dog'' \<noteq> lower ''cat''"
    by (simp_all add: lower_def lower_char_def upper_def upper_char_def)
  show ?thesis
    by (simp add: generate_new_choices_def example_question_def truthy_def l sim_cat_dog
        rand_cat_dog relaxed_cat_dog random_shuffle_def case_prod_beta
        select_best_distractors_def num_distractors_def fallback_cat_dog)
qed

lemma fresh_generator_miss:
  "choices_cache (fresh_generator r) qid = None
   \<and> length (get_choices_by_qid (cg_db (fresh_generator r)) qid) \<noteq> total_choices"
  by (simp add: fresh_generator_def empty_database_def get_choices_by_qid_def total_choices_def)

text \<open>
  Claim C9.  When \<open>get_or_generate_choices\<close> generates a new choice set (the call is forced,
  or neither the cache nor the database answers it, and \<open>_generate_new_choices\<close> returns a
  list), that list is the correct answer followed by the distractors, the database
  afterwards returns exactly this list in this order for the question, the choices of
  other questions are untouched, and the list handed to the caller is a permutation of it.
  \<open>save_choices\<close> replaces: reading back after a save gives the saved list, whatever was
  stored for the question before.
\<close>

theorem stored_choice_order:
  assumes "force_regenerate
           \<or> (choices_cache st qid = None
              \<and> length (get_choices_by_qid (cg_db st) qid) \<noteq> total_choices)"
      and "generate_new_choices ar coco_vocab question (cg_rng st) = Inr (Some new_choices, r1)"
  shows "\<exists>shuffled st' answer distractors.
           get_or_generate_choices ar coco_vocab st qid question force_regenerate = (Inr shuffled, st')
           \<and> q_answer question = Some answer
           \<and> new_choices = answer # distractors
           \<and> get_choices_by_qid (cg_db st') qid = answer # distractors
           \<and> mset shuffled = mset (answer # distractors)
           \<and> (\<forall>k. k \<noteq> qid \<longrightarrow> get_choices_by_qid (cg_db st') k = get_choices_by_qid (cg_db st) k)
           \<and> (\<forall>d cs a. get_choices_by_qid (save_choices d qid cs a) qid = cs)"
proof -
  from generate_new_choices_Some [OF assms(2)]
  obtain answer distractors where a: "q_answer question = Some answer"
    and n: "new_choices = answer # distractors"
    by blast
  obtain shuffled r2 where sh: "random_shuffle new_choices r1 = (shuffled, r2)"
    by (cases "random_shuffle new_choices r1")
  note call = new_generation_call [OF assms a sh]
  from mset_random_shuffle [OF sh] have "mset shuffled = mset new_choices" .
  with call a n show ?thesis
    by (simp add: get_after_save get_after_save_other)
qed

theorem stored_choice_order_witness:
  "choices_cache (fresh_generator []) 1 = None
   \<and> length (get_choices_by_qid (cg_db (fresh_generator [])) 1) \<noteq> total_choices
   \<and> generate_new_choices double_arith cat_dog_vocab example_question (cg_rng (fresh_generator []))
       = Inr (Some [''cat'', ''dog'', ''dog''], [])
   \<and> (\<exists>shuffled st'.
         get_or_generate_choices double_arith cat_dog_vocab (fresh_generator []) 1 example_question False
           = (Inr shuffled, st')
         \<and> get_choices_by_qid (cg_db st') 1 = [''cat'', ''dog'', ''dog'']
         \<and> mset shuffled = mset [''cat'', ''dog'', ''dog'']
         \<and> get_choices_by_qid (cg_db st') 2 = get_choices_by_qid (cg_db (fresh_generator [])) 2)"
proof -
  have gen: "generate_new_choices double_arith cat_dog_vocab example_question (cg_rng (fresh_generator []))
               = Inr (Some [''cat'', ''dog'', ''dog''], [])"
    by (simp add: new_choices_cat_dog fresh_generator_def)
  have path: "False \<or> (choices_cache (fresh_generator []) 1 = None
      \<and> length (get_choices_by_qid (cg_db (fresh_generator [])) 1) \<noteq> total_choices)"
    using fresh_generator_miss [of "[]" 1] by simp
  from stored_choice_order [OF path gen]
  obtain shuffled st' answer distractors where
    "get_or_generate_choices double_arith cat_dog_vocab (fresh_generator []) 1 example_question False
       = (Inr shuffled, st')"
    "[''cat'', ''dog'', ''dog''] = answer # distractors"
    "get_choices_by_qid (cg_db st') 1 = answer # distractors"
    "mset shuffled = mset (answer # distractors)"
    "\<forall>k. k \<noteq> 1 \<longrightarrow> get_choices_by_qid (cg_db st') k
                      = get_choices_by_qid (cg_db (fresh_generator [])) k"
    by blast
  then show ?thesis
    using gen fresh_generator_miss [of "[]" 1] by auto
qed

section \<open>Properties of repeated retrieval\<close>

lemma cache_hit:
  "choices_cache st qid = Some cs \<Longrightarrow>
     get_or_generate_choices ar coco_vocab st qid question False = (Inr cs, st)"
  by (simp add: get_or_generate_choices_def)

lemma cache_other:
  assumes "k \<noteq> qid"
  shows "choices_cache (snd (get_or_generate_choices ar coco_vocab st k question f)) qid
           = choices_cache st qid"
  using assms
  by (auto simp: get_or_generate_choices_def Let_def
      split: option.splits sum.splits prod.splits if_splits)

lemma cache_preserved:
  assumes "choices_cache st qid = Some cs" and "k = qid \<longrightarrow> \<not> f"
  shows "choices_cache (snd (get_or_generate_choices ar coco_vocab st k question f)) qid = Some cs"
proof (cases "k = qid")
  case True
  with assms show ?thesis
    by (simp add: cache_hit)
next
  case False
  with assms(1) show ?thesis
    by (simp add: cache_other)
qed

lemma run_events_cache:
  assumes "choices_cache st qid = Some cs"
      and "\<forall>e \<in> set events. \<not> regenerates qid e"
  shows "choices_cache (run_events ar coco_vocab st events) qid = Some cs"
  using assms
proof (induction events arbitrary: st)
  case Nil
  then show ?case by simp
next
  case (Cons e events)
  show ?case
  proof (cases e)
    case (Call k question f)
    with Cons.prems have "k = qid \<longrightarrow> \<not> f"
      by (simp add: regenerates_def)
    from cache_preserved [OF Cons.prems(1) this]
    have "choices_cache (snd (get_or_generate_choices ar coco_vocab st k question f)) qid
            = Some cs" .
    from Cons.IH [OF this] Cons.prems(2) Call show ?thesis
      by simp
  next
    case (SharedStateChange d r)
    from Cons.prems(1) have "choices_cache (st\<lparr> cg_db := d, cg_rng := r \<rparr>) qid = Some cs"
      by simp
    from Cons.IH [OF this] Cons.prems(2) SharedStateChange show ?thesis
      by simp
  qed
qed

lemma first_call_caches:
  assumes "get_or_generate_choices ar coco_vocab st qid question False = (Inr cs, st1)"
      and "\<not> final_fallback ar coco_vocab st qid question False"
  shows "choices_cache st1 qid = Some cs"
proof (cases "choices_cache st qid")
  case (Some c)
  with assms(1) show ?thesis
    by (simp add: cache_hit)
next
  case None
  show ?thesis
  proof (cases "length (get_choices_by_qid (cg_db st) qid) = total_choices")
    case True
    then have ne: "get_choices_by_qid (cg_db st) qid \<noteq> []"
      by (auto simp: total_choices_def)
    obtain shuffled r1
      where sh: "random_shuffle (get_choices_by_qid (cg_db st) qid) (cg_rng st) = (shuffled, r1)"
      by (cases "random_shuffle (get_choices_by_qid (cg_db st) qid) (cg_rng st)")
    have "get_or_generate_choices ar coco_vocab st qid question False =
            (Inr shuffled,
             st\<lparr> choices_cache := (choices_cache st)(qid \<mapsto> shuffled), cg_rng := r1 \<rparr>)"
      by (simp add: get_or_generate_choices_def None True ne sh)
    with assms(1) show ?thesis
      by auto
  next
    case False
    show ?thesis
    proof (cases "generate_new_choices ar coco_vocab question (cg_rng st)")
      case (Inl e)
      have "get_or_generate_choices ar coco_vocab st qid question False = (Inl e, st)"
        by (simp add: get_or_generate_choices_def None False Inl)
      with assms(1) show ?thesis
        by simp
    next
      case (Inr p)
      obtain opt r1 where p: "p = (opt, r1)"
        by (cases p)
      show ?thesis
      proof (cases opt)
        case no_list: None
        have "final_fallback ar coco_vocab st qid question False"
          by (simp add: final_fallback_def None False Inr p no_list)
        with assms(2) show ?thesis
          by simp
      next
        case (Some new_choices)
        have gen: "generate_new_choices ar coco_vocab question (cg_rng st)
                     = Inr (Some new_choices, r1)"
          by (simp add: Inr p Some)
        from generate_new_choices_Some [OF gen]
        obtain answer where a: "q_answer question = Some answer"
          by blast
        obtain shuffled r2 where sh: "random_shuffle new_choices r1 = (shuffled, r2)"
          by (cases "random_shuffle new_choices r1")
        have path: "False \<or> (choices_cache st qid = None
                      \<and> length (get_choices_by_qid (cg_db st) qid) \<noteq> total_choices)"
          using None False by simp
        from new_generation_call [OF path gen a sh] assms(1) show ?thesis
          by auto
      qed
    qed
  qed
qed

lemma new_none: "generate_new_choices ar v question_without_lemma r = Inr (None, r)"
  by (simp add: generate_new_choices_def question_without_lemma_def example_question_def
      truthy_def)

lemma fallback_draw_4:
  "generate_fallback_choices question_without_lemma [4] = ([''thing'', ''cat'', ''person''], [])"
  by code_simp

lemma fallback_no_draw:
  "generate_fallback_choices question_without_lemma [] = ([''cat'', ''thing'', ''person''], [])"
  by code_simp

lemma stored_choices_cat_dog_bird:
  "get_choices_by_qid choices_database 1 = [''cat'', ''dog'', ''bird'']"
  by (simp add: get_choices_by_qid_def choices_database_def empty_database_def)

lemma shuffle_draw_4:
  "random_shuffle [''cat'', ''dog'', ''bird''] [4] = ([''dog'', ''cat'', ''bird''], [])"
  by code_simp

lemma shuffle_no_draw:
  "random_shuffle [''cat'', ''dog'', ''bird''] [] = ([''cat'', ''dog'', ''bird''], [])"
  by code_simp

lemma database_reuse_call:
  assumes "choices_cache st qid = None"
      and "get_choices_by_qid (cg_db st) qid = existing"
      and "length existing = total_choices"
      and "random_shuffle existing (cg_rng st) = (cs, r')"
  shows "get_or_generate_choices ar coco_vocab st qid question False =
           (Inr cs, st\<lparr> choices_cache := (choices_cache st)(qid \<mapsto> cs), cg_rng := r' \<rparr>)"
proof -
  from assms(3) have "existing \<noteq> []"
    by (auto simp: total_choices_def)
  with assms show ?thesis
    by (simp add: get_or_generate_choices_def)
qed

lemma reuse_with_fresh_generator:
  assumes "random_shuffle [''cat'', ''dog'', ''bird''] r = (cs, r')"
  shows "generate_and_save_choices ar example_env choices_database r 1 example_question
           = (Inr (example_question
                     \<lparr> q_choices := Some cs,
                       q_candidate := Some (filter (\<lambda>c. c \<noteq> ''cat'') cs) \<rparr>),
              choices_database, r')"
proof -
  have "get_or_generate_choices ar (cand_vocab example_env)
          \<lparr> cg_db = choices_database, choices_cache = Map.empty, cg_rng = r \<rparr> 1
          example_question False
        = (Inr cs, \<lparr> cg_db = choices_database, choices_cache = Map.empty, cg_rng = r \<rparr>
                     \<lparr> choices_cache := (Map.empty)(1 \<mapsto> cs), cg_rng := r' \<rparr>)"
    using database_reuse_call
            [of "\<lparr> cg_db = choices_database, choices_cache = Map.empty, cg_rng = r \<rparr>" 1
                "[''cat'', ''dog'', ''bird'']" cs r' ar "cand_vocab example_env" example_question]
          stored_choices_cat_dog_bird assms
    by (simp add: total_choices_def)
  moreover have "q_answer example_question = Some ''cat''"
    by (simp add: example_question_def)
  ultimately show ?thesis
    by (simp add: generate_and_save_choices_def)
qed

text \<open>
  Claim C10, as stated, fails, in two ways.

  \<^item> A question dictionary without a lemma is answered by the fixed-list fallback, which is
    shuffled at every call and never cached: on a fresh generator whose random source
    holds the single draw 4, the first call returns \<open>thing, cat, person\<close> and the second
    call, on the state the first one left, returns \<open>cat, thing, person\<close>.

  \<^item> The cache belongs to one generator object, and \<open>_generate_and_save_choices\<close> builds a
    new object for every retrieval.  With the choices \<open>cat, dog, bird\<close> stored for
    question 1, a first retrieval (draw 4) shows \<open>dog, cat, bird\<close> and leaves the database
    as it is, and a second retrieval over the same database (no draw left) shows
    \<open>cat, dog, bird\<close>: the stored choices are shuffled again, no fallback and no forced
    regeneration being involved.
\<close>

theorem repeated_calls_counterexample:
  "get_or_generate_choices double_arith [] (fresh_generator [4]) 1 question_without_lemma False
     = (Inr [''thing'', ''cat'', ''person''], fresh_generator [])
   \<and> get_or_generate_choices double_arith [] (fresh_generator []) 1 question_without_lemma False
     = (Inr [''cat'', ''thing'', ''person''], fresh_generator [])
   \<and> [''thing'', ''cat'', ''person''] \<noteq> [''cat'', ''thing'', ''person'']
   \<and> generate_and_save_choices double_arith example_env choices_database [4] 1 example_question
     = (Inr (example_question\<lparr> q_choices := Some [''dog'', ''cat'', ''bird''],
                                q_candidate := Some [''dog'', ''bird''] \<rparr>),
        choices_database, [])
   \<and> generate_and_save_choices double_arith example_env choices_database [] 1 example_question
     = (Inr (example_question\<lparr> q_choices := Some [''cat'', ''dog'', ''bird''],
                                q_candidate := Some [''dog'', ''bird''] \<rparr>),
        choices_database, [])
   \<and> [''dog'', ''cat'', ''bird''] \<noteq> [''cat'', ''dog'', ''bird'']"
proof -
  have fallback:
    "get_or_generate_choices double_arith [] (fresh_generator [4]) 1 question_without_lemma False
       = (Inr [''thing'', ''cat'', ''person''], fresh_generator [])"
    "get_or_generate_choices double_arith [] (fresh_generator []) 1 question_without_lemma False
       = (Inr [''cat'', ''thing'', ''person''], fresh_generator [])"
    by (simp_all add: get_or_generate_choices_def fresh_generator_def empty_database_def
        get_choices_by_qid_def total_choices_def new_none fallback_draw_4 fallback_no_draw)
  have reuse:
    "generate_and_save_choices double_arith example_env choices_database [4] 1 example_question
       = (Inr (example_question\<lparr> q_choices := Some [''dog'', ''cat'', ''bird''],
                                  q_candidate := Some [''dog'', ''bird''] \<rparr>),
          choices_database, [])"
    "generate_and_save_choices double_arith example_env choices_database [] 1 example_question
       = (Inr (example_question\<lparr> q_choices := Some [''cat'', ''dog'', ''bird''],
                                  q_candidate := Some [''dog'', ''bird''] \<rparr>),
          choices_database, [])"
    using reuse_with_fresh_generator [OF shuffle_draw_4, of double_arith]
          reuse_with_fresh_generator [OF shuffle_no_draw, of double_arith]
    by simp_all
  have different: "[''thing'', ''cat'', ''person''] \<noteq> [''cat'', ''thing'', ''person'']"
    "[''dog'', ''cat'', ''bird''] \<noteq> [''cat'', ''dog'', ''bird'']"
    by simp_all
  show ?thesis
    by (intro conjI fallback reuse different)
qed

text \<open>
  Claim C10, amended: the order is fixed per generator object.  If a first call with
  \<open>force_regenerate\<close> false returns a list and does not end in the final fixed-list
  fallback, then after any sequence of events on that same generator object (further
  calls for any question, none of them a forced regeneration for this question id, and
  changes made to the shared database and to the random source by other components; no
  \<open>clear_cache\<close>), a call on it for the question id with \<open>force_regenerate\<close> false returns
  the identical list in the identical order and leaves the state of the generator as it
  is.  Nothing is said about two generator objects, for which the order does change.
\<close>

theorem repeated_calls_same_order:
  assumes "get_or_generate_choices ar coco_vocab st qid question False = (Inr cs, st1)"
      and "\<not> final_fallback ar coco_vocab st qid question False"
      and "\<forall>e \<in> set events. \<not> regenerates qid e"
  shows "get_or_generate_choices ar coco_vocab (run_events ar coco_vocab st1 events) qid
           question2 False
           = (Inr cs, run_events ar coco_vocab st1 events)"
proof -
  from first_call_caches [OF assms(1,2)] have "choices_cache st1 qid = Some cs" .
  from run_events_cache [OF this assms(3)]
  have "choices_cache (run_events ar coco_vocab st1 events) qid = Some cs" .
  then show ?thesis
    by (rule cache_hit)
qed

theorem repeated_calls_same_order_witness:
  "\<not> final_fallback double_arith cat_dog_vocab (fresh_generator []) 1 example_question False
   \<and> (\<exists>cs st1.
         get_or_generate_choices double_arith cat_dog_vocab (fresh_generator []) 1
             example_question False
           = (Inr cs, st1)
         \<and> mset cs = mset [''cat'', ''dog'', ''dog'']
         \<and> \<not> regenerates 1 (Call 2 question_without_lemma True)
         \<and> \<not> regenerates 1 (SharedStateChange choices_database [7])
         \<and> \<not> regenerates 1 (Call 1 example_question False)
         \<and> fst (get_or_generate_choices double_arith cat_dog_vocab
                  (run_events double_arith cat_dog_vocab st1
                     [Call 2 question_without_lemma True,
                      SharedStateChange choices_database [7],
                      Call 1 example_question False])
                  1 question_without_lemma False) = Inr cs)"
proof -
  have nf: "\<not> final_fallback double_arith cat_dog_vocab (fresh_generator []) 1
                example_question False"
    by (simp add: final_fallback_def new_choices_cat_dog)
  have events: "\<forall>e \<in> set [Call 2 question_without_lemma True,
                            SharedStateChange choices_database [7],
                            Call 1 example_question False]. \<not> regenerates 1 e"
    by (simp add: regenerates_def)
  have gen: "generate_new_choices double_arith cat_dog_vocab example_question
               (cg_rng (fresh_generator []))
               = Inr (Some [''cat'', ''dog'', ''dog''], [])"
    by (simp add: new_choices_cat_dog fresh_generator_def)
  have a: "q_answer example_question = Some ''cat''"
    by (simp add: example_question_def)
  obtain cs r2 where sh: "random_shuffle [''cat'', ''dog'', ''dog''] [] = (cs, r2)"
    by (cases "random_shuffle [''cat'', ''dog'', ''dog''] []")
  have path: "False \<or> (choices_cache (fresh_generator []) 1 = None
      \<and> length (get_choices_by_qid (cg_db (fresh_generator [])) 1) \<noteq> total_choices)"
    using fresh_generator_miss [of "[]" 1] by simp
  note first = new_generation_call [OF path gen a sh]
  from repeated_calls_same_order [OF first nf events, of question_without_lemma]
       mset_random_shuffle [OF sh] first nf events
  show ?thesis
    by auto
qed

section \<open>The size and distinctness of a choice set\<close>

lemma new_choices_empty_vocab:
  "generate_new_choices ar [] example_question r = Inr (Some [''cat''], r)"
proof -
  have l: "lower ''noun'' = ''noun''" "upper ''A1'' = ''A1''"
    by (simp_all add: lower_def lower_char_def upper_def upper_char_def)
  show ?thesis
    by (simp add: generate_new_choices_def example_question_def truthy_def l
        get_similarity_candidates_def filtered_vocab_def drop_duplicates_def
        get_random_candidates_def get_relaxed_cefr_candidates_def adjacent_levels_def
        cefr_levels_def random_shuffle_def select_best_distractors_def num_distractors_def
        get_fallback_distractors_def)
qed

text \<open>
  Claim C1 does not hold of the code.  With the two-noun vocabulary (\<open>cat\<close>, \<open>dog\<close>) the call
  for the question about \<open>cat\<close> on a fresh generator returns and stores, for every state of
  the random source, a permutation of \<open>cat, dog, dog\<close>: the padding from
  \<open>_get_fallback_distractors\<close> repeats the distractor already chosen.  With an empty
  vocabulary the call returns the single choice \<open>cat\<close>.
\<close>

theorem get_or_generate_choices_not_three_distinct:
  "(\<exists>cs st'. get_or_generate_choices ar cat_dog_vocab (fresh_generator r) 1 example_question False
                = (Inr cs, st')
       \<and> mset cs = mset [''cat'', ''dog'', ''dog'']
       \<and> \<not> distinct cs
       \<and> get_choices_by_qid (cg_db st') 1 = [''cat'', ''dog'', ''dog''])
   \<and> (\<exists>st'. get_or_generate_choices ar [] (fresh_generator r) 1 example_question False
                = (Inr [''cat''], st'))"
proof
  have a: "q_answer example_question = Some ''cat''"
    by (simp add: example_question_def)
  have path: "False \<or> (choices_cache (fresh_generator r) 1 = None
      \<and> length (get_choices_by_qid (cg_db (fresh_generator r)) 1) \<noteq> total_choices)"
    using fresh_generator_miss [of r 1] by simp
  have gen: "generate_new_choices ar cat_dog_vocab example_question (cg_rng (fresh_generator r))
               = Inr (Some [''cat'', ''dog'', ''dog''],
                      snd (draw (snd (draw (snd (draw (cg_rng (fresh_generator r))))))))"
    by (rule new_choices_cat_dog)
  obtain cs r2 where sh: "random_shuffle [''cat'', ''dog'', ''dog'']
      (snd (draw (snd (draw (snd (draw (cg_rng (fresh_generator r)))))))) = (cs, r2)"
    by (cases "random_shuffle [''cat'', ''dog'', ''dog'']
                 (snd (draw (snd (draw (snd (draw (cg_rng (fresh_generator r))))))))")
  note call = new_generation_call [OF path gen a sh]
  from mset_random_shuffle [OF sh] have m: "mset cs = mset [''cat'', ''dog'', ''dog'']" .
  then have "distinct cs = distinct [''cat'', ''dog'', ''dog'']"
    by (rule mset_eq_imp_distinct_iff)
  then have "\<not> distinct cs"
    by simp
  with call m
  show "\<exists>cs st'. get_or_generate_choices ar cat_dog_vocab (fresh_generator r) 1 example_question False
                = (Inr cs, st')
       \<and> mset cs = mset [''cat'', ''dog'', ''dog'']
       \<and> \<not> distinct cs
       \<and> get_choices_by_qid (cg_db st') 1 = [''cat'', ''dog'', ''dog'']"
    by (simp add: get_after_save)
next
  have a: "q_answer example_question = Some ''cat''"
    by (simp add: example_question_def)
  have path: "False \<or> (choices_cache (fresh_generator r) 1 = None
      \<and> length (get_choices_by_qid (cg_db (fresh_generator r)) 1) \<noteq> total_choices)"
    using fresh_generator_miss [of r 1] by simp
  have gen: "generate_new_choices ar [] example_question (cg_rng (fresh_generator r))
               = Inr (Some [''cat''], cg_rng (fresh_generator r))"
    by (rule new_choices_empty_vocab)
  have sh: "random_shuffle [''cat''] (cg_rng (fresh_generator r))
              = ([''cat''], snd (draw (cg_rng (fresh_generator r))))"
    by (simp add: random_shuffle_def case_prod_beta)
  from new_generation_call [OF path gen a sh]
  show "\<exists>st'. get_or_generate_choices ar [] (fresh_generator r) 1 example_question False
                = (Inr [''cat''], st')"
    by simp
qed


section \<open>Properties of question reuse\<close>

lemma lower_char_idem: "lower_char (lower_char c) = lower_char c"
  by (simp add: lower_char_def)

lemma upper_char_idem: "upper_char (upper_char c) = upper_char c"
  by (simp add: upper_char_def)

lemma lower_idem: "lower (lower s) = lower s"
  by (simp add: lower_def lower_char_idem)

lemma upper_idem: "upper (upper s) = upper s"
  by (simp add: upper_def upper_char_idem)

lemma find_unique_key:
  assumes "distinct (map (\<lambda>row. (qr_lemma row, qr_pos row, qr_cefr row)) rows)"
      and "row \<in> set rows"
  shows "find (same_key (qr_lemma row) (qr_pos row) (qr_cefr row)) rows = Some row"
  using assms
proof (induction rows)
  case Nil
  then show ?case by simp
next
  case (Cons x rows)
  show ?case
  proof (cases "x = row")
    case True
    then show ?thesis by (simp add: same_key_def)
  next
    case False
    with Cons.prems have "row \<in> set rows" by simp
    moreover from this Cons.prems(1) have "\<not> same_key (qr_lemma row) (qr_pos row) (qr_cefr row) x"
      by (force simp: same_key_def)
    ultimately show ?thesis
      using Cons by simp
  qed
qed

lemma score_candidates_Inl: "score_candidates ar target cs = Inl e \<Longrightarrow> target = []"
  by (induction cs)
     (auto simp: calculate_distractor_score_def length_score_def Let_def
        split: sum.splits if_splits)

lemma generate_new_choices_not_Inl: "generate_new_choices ar coco_vocab question r \<noteq> Inl e"
proof
  assume "generate_new_choices ar coco_vocab question r = Inl e"
  then obtain l cs where "truthy (Some l)" "score_candidates ar l cs = Inl e"
    by (auto simp: generate_new_choices_def Let_def select_best_distractors_def
        split: if_splits option.splits sum.splits prod.splits)
  then show False
    by (auto simp: truthy_def dest: score_candidates_Inl)
qed

lemma get_or_generate_choices_total:
  "\<exists>cs st'. get_or_generate_choices ar coco_vocab st qid question f = (Inr cs, st')
      \<and> questions (cg_db st') = questions (cg_db st)"
proof (cases "generate_new_choices ar coco_vocab question (cg_rng st)")
  case (Inl e)
  then show ?thesis
    by (simp add: generate_new_choices_not_Inl)
next
  case (Inr p)
  obtain opt r1 where p: "p = (opt, r1)"
    by (cases p)
  show ?thesis
  proof (cases opt)
    case None
    then show ?thesis
      by (auto simp: get_or_generate_choices_def Let_def Inr p split: option.splits prod.splits)
  next
    case (Some new_choices)
    with Inr p have gen: "generate_new_choices ar coco_vocab question (cg_rng st)
                            = Inr (Some new_choices, r1)"
      by simp
    from generate_new_choices_Some [OF gen]
    obtain answer distractors where "q_answer question = Some answer"
      "new_choices = answer # distractors"
      by blast
    then show ?thesis
      by (auto simp: get_or_generate_choices_def Let_def gen save_choices_def
          split: option.splits prod.splits)
  qed
qed


lemma try_rows_Some:
  assumes "try_rows env pos_filter cefr_filter rows = Some question"
  shows "q_pos question = Some (lower pos_filter) \<and> q_cefr question = Some (upper cefr_filter)
         \<and> (\<exists>w. q_lemma question = Some w) \<and> (\<exists>a. q_answer question = Some a)
         \<and> q_qid question = None"
  using assms
proof (induction rows)
  case Nil
  then show ?case by simp
next
  case (Cons row rows)
  then show ?case
    by (auto simp: process_caption_with_spacy_def truthy_def Let_def
        split: option.splits if_splits prod.splits)
qed

lemma generate_random_Some:
  assumes "generate_random_question_from_csv env d pos_filter cefr_filter exclude_qids
             max_attempts r = (Some question, r1)"
  shows "q_pos question = Some (lower pos_filter) \<and> q_cefr question = Some (upper cefr_filter)
         \<and> (\<exists>w. q_lemma question = Some w) \<and> (\<exists>a. q_answer question = Some a)
         \<and> q_qid question = None"
proof -
  from assms obtain rows where "try_rows env pos_filter cefr_filter rows = Some question"
    by (auto simp: generate_random_question_from_csv_def Let_def split: if_splits prod.splits)
  then show ?thesis
    by (rule try_rows_Some)
qed

lemma save_question_existing:
  assumes "distinct (map (\<lambda>row. (qr_lemma row, qr_pos row, qr_cefr row)) (questions d))"
      and "row \<in> set (questions d)"
      and "q_lemma question = Some (qr_lemma row)"
      and "q_pos question = Some (qr_pos row)"
      and "q_cefr question = Some (qr_cefr row)"
      and "q_answer question = Some a"
  shows "save_question d question = (Inr (qr_qid row), d)"
  using assms by (simp add: save_question_def find_unique_key)

lemma generate_and_save_choices_total:
  assumes "q_answer question = Some a"
  shows "\<exists>question' d' r'. generate_and_save_choices ar env d r qid question = (Inr question', d', r')
           \<and> q_qid question' = q_qid question \<and> questions d' = questions d"
proof -
  from get_or_generate_choices_total
         [of ar "cand_vocab env" "\<lparr> cg_db = d, choices_cache = Map.empty, cg_rng = r \<rparr>" qid
             question False]
  obtain cs st' where
    "get_or_generate_choices ar (cand_vocab env)
       \<lparr> cg_db = d, choices_cache = Map.empty, cg_rng = r \<rparr> qid question False = (Inr cs, st')"
    "questions (cg_db st') = questions d"
    by auto
  with assms show ?thesis
    by (simp add: generate_and_save_choices_def)
qed

text \<open>
  Claim C6.  Let the store satisfy its uniqueness constraint on \<open>(lemma, pos, cefr)\<close> and
  let the synthesizer's sampling produce a question whose triple is that of a stored row.
  Then \<open>get_or_generate_question\<close> returns the question with that row's id and the
  \<open>questions\<close> table is unchanged (no duplicate row), and \<open>save_question\<close> on the duplicate
  returns the existing row's id without an error and without changing the database.
\<close>

theorem natural_key_reuse:
  assumes "distinct (map (\<lambda>row. (qr_lemma row, qr_pos row, qr_cefr row)) (questions d))"
      and "generate_random_question_from_csv env d pos_filter cefr_filter exclude_qids
             max_attempts r = (Some new_question, r1)"
      and "row \<in> set (questions d)"
      and "q_lemma new_question = Some (qr_lemma row)"
      and "q_pos new_question = Some (qr_pos row)"
      and "q_cefr new_question = Some (qr_cefr row)"
  shows "(\<exists>question d' r'.
            get_or_generate_question ar env d r pos_filter cefr_filter exclude_qids max_attempts
              = (Inr (Some question), d', r')
            \<and> q_qid question = Some (qr_qid row)
            \<and> questions d' = questions d)
         \<and> save_question d new_question = (Inr (qr_qid row), d)"
proof -
  from generate_random_Some [OF assms(2)]
  obtain a where p: "q_pos new_question = Some (lower pos_filter)"
    and c: "q_cefr new_question = Some (upper cefr_filter)"
    and a: "q_answer new_question = Some a"
    by blast
  from p c assms(5,6) have pc: "lower (qr_pos row) = qr_pos row" "upper (qr_cefr row) = qr_cefr row"
    by (auto simp: lower_idem upper_idem)
  note found = find_unique_key [OF assms(1,3)]
  note saved = save_question_existing [OF assms(1,3,4,5,6) a]
  have check: "check_existing_question d new_question = Some (qr_qid row)
               \<or> check_existing_question d new_question = None"
    by (simp add: check_existing_question_def assms(4,5,6) pc found)
  have "\<exists>question d' r'.
            get_or_generate_question ar env d r pos_filter cefr_filter exclude_qids max_attempts
              = (Inr (Some question), d', r')
            \<and> q_qid question = Some (qr_qid row)
            \<and> questions d' = questions d"
  proof -
    from generate_and_save_choices_total
           [of "new_question\<lparr> q_qid := Some (qr_qid row) \<rparr>" a ar env d r1 "qr_qid row"] a
    obtain question' d' r' where fresh:
      "generate_and_save_choices ar env d r1 (qr_qid row)
         (new_question\<lparr> q_qid := Some (qr_qid row) \<rparr>) = (Inr question', d', r')"
      "q_qid question' = Some (qr_qid row)" "questions d' = questions d"
      by auto
    from check show ?thesis
    proof
      assume ex: "check_existing_question d new_question = Some (qr_qid row)"
      show ?thesis
      proof (cases "qr_qid row = 0")
        case True
        with ex have "check_existing_question d new_question = Some 0"
          by simp
        then show ?thesis
          using fresh saved True by (simp add: get_or_generate_question_def assms(2) Let_def)
      next
        case False
        then show ?thesis
          by (simp add: get_or_generate_question_def assms(2) Let_def ex a)
      qed
    next
      assume ex: "check_existing_question d new_question = None"
      then show ?thesis
        using fresh saved by (simp add: get_or_generate_question_def assms(2) Let_def)
    qed
  qed
  with saved show ?thesis
    by simp
qed

lemma example_generation:
  "generate_random_question_from_csv example_env question_database ''Noun'' ''a1'' [] 200 []
     = (Some (example_question\<lparr> q_qid := None \<rparr>), [])"
  by code_simp

theorem natural_key_reuse_witness:
  "distinct (map (\<lambda>row. (qr_lemma row, qr_pos row, qr_cefr row)) (questions question_database))
   \<and> generate_random_question_from_csv example_env question_database ''Noun'' ''a1'' [] 200 []
       = (Some (example_question\<lparr> q_qid := None \<rparr>), [])
   \<and> cat_row \<in> set (questions question_database)
   \<and> (\<exists>question d' r'.
         get_or_generate_question double_arith example_env question_database [] ''Noun'' ''a1'' [] 200
           = (Inr (Some question), d', r')
         \<and> q_qid question = Some 1
         \<and> questions d' = [cat_row])
   \<and> save_question question_database (example_question\<lparr> q_qid := None \<rparr>)
       = (Inr 1, question_database)"
proof -
  have u: "distinct (map (\<lambda>row. (qr_lemma row, qr_pos row, qr_cefr row))
                        (questions question_database))"
    by (simp add: question_database_def empty_database_def)
  have m: "cat_row \<in> set (questions question_database)"
    by (simp add: question_database_def empty_database_def)
  have k: "q_lemma (example_question\<lparr> q_qid := None \<rparr>) = Some (qr_lemma cat_row)"
    "q_pos (example_question\<lparr> q_qid := None \<rparr>) = Some (qr_pos cat_row)"
    "q_cefr (example_question\<lparr> q_qid := None \<rparr>) = Some (qr_cefr cat_row)"
    by (simp_all add: example_question_def cat_row_def)
  have q: "qr_qid cat_row = 1" "questions question_database = [cat_row]"
    by (simp_all add: cat_row_def question_database_def empty_database_def)
  from natural_key_reuse [where ar = double_arith, OF u example_generation m k]
  show ?thesis
    using u m example_generation by (simp add: q)
qed

end
